theory Spec2Isabelle
  imports Main "HOL-Library.Product_Lexorder" "HOL-Library.Option_ord" "HOL-Library.Multiset"
    "HOL-Library.Sublist" "HOL-Library.Char_ord" "HOL-Library.List_Lexorder"
begin

section \<open>Exceptions and effects\<close>

text \<open>
  The service (\<^verbatim>\<open>src/services/platform_service.py\<close>) raises and catches the HTTP
  exception classes of \<^verbatim>\<open>api_utils.flask_utils.exceptions\<close>; every other Python exception
  is \<open>Exception\<close>. Each exception carries the text that \<^verbatim>\<open>str(e)\<close> yields.
\<close>

datatype exn =
    HTTPBadRequest string
  | HTTPForbidden string
  | HTTPNotFound string
  | HTTPInternalServerError string
  | Exception string

fun str_exn :: "exn \<Rightarrow> string" where
  "str_exn (HTTPBadRequest m) = m"
| "str_exn (HTTPForbidden m) = m"
| "str_exn (HTTPNotFound m) = m"
| "str_exn (HTTPInternalServerError m) = m"
| "str_exn (Exception m) = m"

text \<open>
  A call either raises or returns, and may change the state of the document store on the
  way: a computation maps the store's state to its outcome and the new state.
\<close>

type_synonym ('a, 'st) io = "'st \<Rightarrow> (exn + 'a) \<times> 'st"

definition returns :: "'a \<Rightarrow> ('a, 'st) io" where
  "returns x st = (Inr x, st)"

definition raise :: "exn \<Rightarrow> ('a, 'st) io" where
  "raise e st = (Inl e, st)"

definition then_do :: "('a, 'st) io \<Rightarrow> ('a \<Rightarrow> ('b, 'st) io) \<Rightarrow> ('b, 'st) io" where
  "then_do m f st = (case m st of (Inl e, st') \<Rightarrow> (Inl e, st') | (Inr x, st') \<Rightarrow> f x st')"

definition try_except :: "('a, 'st) io \<Rightarrow> (exn \<Rightarrow> ('a, 'st) io) \<Rightarrow> ('a, 'st) io" where
  "try_except m handler st =
     (case m st of (Inl e, st') \<Rightarrow> handler e st' | (Inr x, st') \<Rightarrow> (Inr x, st'))"

section \<open>Data\<close>

text \<open>
  A Python dictionary with string keys (a JSON object, a token, a \<^verbatim>\<open>$set\<close> document) is a
  map. The service never inspects a field's value, so the type of values is a parameter.
  A token is a dictionary or \<^verbatim>\<open>None\<close>.
\<close>

type_synonym 'v dict = "string \<rightharpoonup> 'v"

type_synonym 'v token = "'v dict option"

record config =
  PLATFORM_COLLECTION_NAME :: string

text \<open>The query that the list operation sends to the collection, and the page it returns.\<close>

record 'i query =
  q_name :: "string option"
  q_after_id :: "'i option"
  q_sort_by :: string
  q_order :: string
  q_limit :: nat

record 'd page =
  items :: "'d list"
  limit :: int
  has_more :: bool
  next_cursor :: "string option"

text \<open>
  The document store is an external collaborator (\<^verbatim>\<open>MongoIO\<close> of \<^verbatim>\<open>api_utils\<close>, and the
  collection handle it gives out). It is a parameter of the service: its methods are
  arbitrary computations over a store state \<open>'st\<close>, each of which may raise. The identifier
  format of the store (parsing an identifier, printing it, reading the identifier of a
  row) is part of it. \<open>'d\<close> is the type of the rows a query returns, \<open>'i\<close> the type of
  identifiers, \<open>'c\<close> the type of collection handles.
\<close>

record ('v, 'd, 'i, 'c, 'st) mongo_io =
  create_document :: "string \<Rightarrow> 'v dict \<Rightarrow> (string, 'st) io"
  get_document :: "string \<Rightarrow> string \<Rightarrow> ('v dict option, 'st) io"
  update_document :: "string \<Rightarrow> string \<Rightarrow> 'v dict \<Rightarrow> ('v dict option, 'st) io"
  get_collection :: "string \<Rightarrow> ('c, 'st) io"
  run_query :: "'c \<Rightarrow> 'i query \<Rightarrow> ('d list, 'st) io"
  parse_id :: "string \<Rightarrow> 'i option"
  str_id :: "'i \<Rightarrow> string"
  row_id :: "'d \<Rightarrow> 'i"

section \<open>The platform service\<close>

definition ALLOWED_SORT_FIELDS :: "string list" where
  "ALLOWED_SORT_FIELDS =
     [''name'', ''description'', ''status'', ''created.at_time'', ''saved.at_time'']"

text \<open>\<^verbatim>\<open>PlatformService._check_permission\<close>: the body is \<^verbatim>\<open>pass\<close>.\<close>

definition check_permission :: "'v token \<Rightarrow> string \<Rightarrow> (unit, 'st) io" where
  "check_permission token operation = returns ()"

text \<open>
  \<^verbatim>\<open>token.get('user_id')\<close>, evaluated in every log line after the store call: on \<^verbatim>\<open>None\<close> it
  raises \<^verbatim>\<open>AttributeError\<close>.
\<close>

definition no_attribute_get :: exn where
  "no_attribute_get =
     Exception ([CHR 0x27] @ ''NoneType' object has no attribute 'get'' @ [CHR 0x27])"

definition token_get :: "'v token \<Rightarrow> string \<Rightarrow> ('v option, 'st) io" where
  "token_get token key =
     (case token of
        None \<Rightarrow> raise no_attribute_get
      | Some t \<Rightarrow> returns (t key))"

definition restricted_fields :: "string list" where
  "restricted_fields = [''_id'', ''created'', ''saved'']"

text \<open>
  \<^verbatim>\<open>PlatformService._validate_update_data\<close>: the loop over the restricted fields raises at
  the first one that is a key of the payload.
\<close>

fun validate_fields :: "string list \<Rightarrow> 'v dict \<Rightarrow> (unit, 'st) io" where
  "validate_fields [] data = returns ()"
| "validate_fields (field # more_fields) data =
     (if data field \<noteq> None
      then raise (HTTPForbidden (''Cannot update '' @ field @ '' field''))
      else validate_fields more_fields data)"

definition validate_update_data :: "'v dict \<Rightarrow> (unit, 'st) io" where
  "validate_update_data data = validate_fields restricted_fields data"

text \<open>
  \<^verbatim>\<open>PlatformService.create_platform\<close>. The payload that reaches the store is \<open>stamp\<close>: the
  key \<^verbatim>\<open>_id\<close> deleted, \<^verbatim>\<open>created\<close> and \<^verbatim>\<open>saved\<close> set to the breadcrumb.
\<close>

definition stamp :: "'v dict \<Rightarrow> 'v \<Rightarrow> 'v dict" where
  "stamp data breadcrumb =
     (let data = (if data ''_id'' \<noteq> None then data(''_id'' := None) else data);
          data = data(''created'' \<mapsto> breadcrumb);
          data = data(''saved'' \<mapsto> breadcrumb)
      in data)"

definition create_platform ::
  "('v, 'd, 'i, 'c, 'st) mongo_io \<Rightarrow> config \<Rightarrow> 'v dict \<Rightarrow> 'v token \<Rightarrow> 'v \<Rightarrow> (string, 'st) io"
where
  "create_platform mongo config data token breadcrumb =
     try_except
       (then_do (check_permission token ''create'') (\<lambda>_.
        then_do (create_document mongo (PLATFORM_COLLECTION_NAME config) (stamp data breadcrumb))
          (\<lambda>platform_id.
        then_do (token_get token ''user_id'') (\<lambda>_.
        returns platform_id))))
       (\<lambda>e. case e of
          HTTPForbidden m \<Rightarrow> raise e
        | _ \<Rightarrow> raise (HTTPInternalServerError (''Failed to create platform: '' @ str_exn e)))"

text \<open>\<^verbatim>\<open>PlatformService.get_platform\<close>.\<close>

definition get_platform ::
  "('v, 'd, 'i, 'c, 'st) mongo_io \<Rightarrow> config \<Rightarrow> string \<Rightarrow> 'v token \<Rightarrow> 'v \<Rightarrow> ('v dict, 'st) io"
where
  "get_platform mongo config platform_id token breadcrumb =
     try_except
       (then_do (check_permission token ''read'') (\<lambda>_.
        then_do (get_document mongo (PLATFORM_COLLECTION_NAME config) platform_id) (\<lambda>platform.
        case platform of
          None \<Rightarrow> raise (HTTPNotFound (''Platform '' @ platform_id @ '' not found''))
        | Some p \<Rightarrow>
            then_do (token_get token ''user_id'') (\<lambda>_.
            returns p))))
       (\<lambda>e. case e of
          HTTPNotFound m \<Rightarrow> raise e
        | _ \<Rightarrow> raise (HTTPInternalServerError (''Failed to retrieve platform '' @ platform_id)))"

text \<open>
  \<^verbatim>\<open>PlatformService.update_platform\<close>. The dictionary comprehension keeps the keys that
  are not restricted; \<^verbatim>\<open>saved\<close> is then set to the breadcrumb.
\<close>

definition set_data_of :: "'v dict \<Rightarrow> 'v \<Rightarrow> 'v dict" where
  "set_data_of data breadcrumb =
     (let set_data = (\<lambda>k. if k \<in> set restricted_fields then None else data k)
      in set_data(''saved'' \<mapsto> breadcrumb))"

definition update_platform ::
  "('v, 'd, 'i, 'c, 'st) mongo_io \<Rightarrow> config \<Rightarrow> string \<Rightarrow> 'v dict \<Rightarrow> 'v token \<Rightarrow> 'v \<Rightarrow>
     ('v dict, 'st) io"
where
  "update_platform mongo config platform_id data token breadcrumb =
     try_except
       (then_do (check_permission token ''update'') (\<lambda>_.
        then_do (validate_update_data data) (\<lambda>_.
        then_do (update_document mongo (PLATFORM_COLLECTION_NAME config) platform_id
                   (set_data_of data breadcrumb)) (\<lambda>updated.
        case updated of
          None \<Rightarrow> raise (HTTPNotFound (''Platform '' @ platform_id @ '' not found''))
        | Some u \<Rightarrow>
            then_do (token_get token ''user_id'') (\<lambda>_.
            returns u)))))
       (\<lambda>e. case e of
          HTTPForbidden m \<Rightarrow> raise e
        | HTTPNotFound m \<Rightarrow> raise e
        | _ \<Rightarrow> raise (HTTPInternalServerError (''Failed to update platform '' @ platform_id)))"

section \<open>The list operation\<close>

text \<open>
  Modelled from the spec: \<^verbatim>\<open>execute_infinite_scroll_query\<close> is imported from the package
  \<^verbatim>\<open>api_utils.mongo_utils\<close>, which is not part of the sources; \<open>join\<close>, \<open>page_of\<close> and
  \<open>execute_infinite_scroll_query\<close> below follow section 4.1 of the specification. \<open>join\<close>
  writes the allowed fields into the message that names them, separated by commas.
\<close>

fun join :: "string \<Rightarrow> string list \<Rightarrow> string" where
  "join sep [] = []"
| "join sep [x] = x"
| "join sep (x # y # ys) = x @ sep @ join sep (y # ys)"

text \<open>
  Modelled from the spec: steps 3 and 4 of section 4.1. When more than \<open>limit\<close> rows came
  back there is more, and the cursor is the identifier of the \<open>limit\<close>-th row; the items
  are the first \<open>limit\<close> rows.
\<close>

definition page_of :: "('d \<Rightarrow> 'i) \<Rightarrow> ('i \<Rightarrow> string) \<Rightarrow> int \<Rightarrow> 'd list \<Rightarrow> 'd page" where
  "page_of rid str lim rows =
     (if length rows > nat lim
      then \<lparr>items = take (nat lim) rows, limit = lim, has_more = True,
            next_cursor = Some (str (rid (rows ! (nat lim - 1))))\<rparr>
      else \<lparr>items = take (nat lim) rows, limit = lim, has_more = False, next_cursor = None\<rparr>)"

text \<open>
  Modelled from the spec: the validation and the algorithm of section 4.1. The limit must
  be in \<open>[1,100]\<close>, the sort field in the allowed list, the order \<^verbatim>\<open>asc\<close> or \<^verbatim>\<open>desc\<close>, and
  the cursor, if given, must parse as an identifier of the store; the query asks for
  \<open>limit + 1\<close> rows, and the page is cut from the rows that come back. The messages for the
  limit and the cursor are the texts that section 4.1 quotes. For the sort field the
  section says only that the failure names the allowed set, and for the order only that
  the call fails: the wording of these two messages is chosen here. The section does not
  say which of several invalid parameters is reported; they are checked in the order in
  which it lists them, all of them before the collection is queried.
\<close>

definition execute_infinite_scroll_query ::
  "('v, 'd, 'i, 'c, 'st) mongo_io \<Rightarrow> 'c \<Rightarrow> string option \<Rightarrow> string option \<Rightarrow> int \<Rightarrow> string \<Rightarrow>
     string \<Rightarrow> string list \<Rightarrow> ('d page, 'st) io"
where
  "execute_infinite_scroll_query mongo collection name after_id lim sort_by order
       allowed_sort_fields =
     (if lim < 1 then raise (HTTPBadRequest ''limit must be >= 1'')
      else if lim > 100 then raise (HTTPBadRequest ''limit must be <= 100'')
      else if sort_by \<notin> set allowed_sort_fields
      then raise (HTTPBadRequest (''sort_by must be one of: '' @ join '', '' allowed_sort_fields))
      else if order \<noteq> ''asc'' \<and> order \<noteq> ''desc''
      then raise (HTTPBadRequest (''order must be 'asc' or 'desc'' @ [CHR 0x27]))
      else
        then_do
          (case after_id of
             None \<Rightarrow> returns None
           | Some s \<Rightarrow>
               (case parse_id mongo s of
                  None \<Rightarrow> raise (HTTPBadRequest ''after_id must be a valid identifier'')
                | Some c \<Rightarrow> returns (Some c)))
          (\<lambda>cursor.
        then_do
          (run_query mongo collection
             \<lparr>q_name = name, q_after_id = cursor, q_sort_by = sort_by, q_order = order,
              q_limit = nat lim + 1\<rparr>)
          (\<lambda>rows.
        returns (page_of (row_id mongo) (str_id mongo) lim rows))))"

text \<open>The cursor that the list operation derives from \<^verbatim>\<open>after_id\<close>, once it has parsed.\<close>

definition cursor_of :: "('v, 'd, 'i, 'c, 'st) mongo_io \<Rightarrow> string option \<Rightarrow> 'i option" where
  "cursor_of mongo after_id = (case after_id of None \<Rightarrow> None | Some s \<Rightarrow> parse_id mongo s)"

text \<open>
  The values of the keyword arguments \<^verbatim>\<open>limit=10\<close>, \<^verbatim>\<open>sort_by='name'\<close> and
  \<^verbatim>\<open>order='asc'\<close> of \<^verbatim>\<open>get_platforms\<close>, given or left out.
\<close>

definition the_limit :: "int option \<Rightarrow> int" where
  "the_limit limit_arg = (case limit_arg of None \<Rightarrow> 10 | Some l \<Rightarrow> l)"

definition the_sort_by :: "string option \<Rightarrow> string" where
  "the_sort_by sort_by_arg = (case sort_by_arg of None \<Rightarrow> ''name'' | Some s \<Rightarrow> s)"

definition the_order :: "string option \<Rightarrow> string" where
  "the_order order_arg = (case order_arg of None \<Rightarrow> ''asc'' | Some s \<Rightarrow> s)"

text \<open>The arguments that pass the validation of the list operation.\<close>

definition limit_ok :: "int option \<Rightarrow> bool" where
  "limit_ok limit_arg = (1 \<le> the_limit limit_arg \<and> the_limit limit_arg \<le> 100)"

definition sort_by_ok :: "string option \<Rightarrow> bool" where
  "sort_by_ok sort_by_arg = (the_sort_by sort_by_arg \<in> set ALLOWED_SORT_FIELDS)"

definition order_ok :: "string option \<Rightarrow> bool" where
  "order_ok order_arg = (the_order order_arg = ''asc'' \<or> the_order order_arg = ''desc'')"

text \<open>
  \<^verbatim>\<open>PlatformService.get_platforms\<close>. The keyword arguments with a default other than
  \<^verbatim>\<open>None\<close> are options here: \<open>None\<close> is the argument left out. The collection handle is
  obtained from the store before the list operation validates anything.
\<close>

definition get_platforms ::
  "('v, 'd, 'i, 'c, 'st) mongo_io \<Rightarrow> config \<Rightarrow> 'v token \<Rightarrow> 'v \<Rightarrow> string option \<Rightarrow>
     string option \<Rightarrow> int option \<Rightarrow> string option \<Rightarrow> string option \<Rightarrow> ('d page, 'st) io"
where
  "get_platforms mongo config token breadcrumb name after_id limit_arg sort_by_arg order_arg =
     (let lim = the_limit limit_arg;
          sort_by = the_sort_by sort_by_arg;
          order = the_order order_arg
      in
        try_except
          (then_do (check_permission token ''read'') (\<lambda>_.
           then_do (get_collection mongo (PLATFORM_COLLECTION_NAME config)) (\<lambda>collection.
           then_do (execute_infinite_scroll_query mongo collection name after_id lim sort_by
                      order ALLOWED_SORT_FIELDS) (\<lambda>result.
           then_do (token_get token ''user_id'') (\<lambda>_.
           returns result)))))
          (\<lambda>e. case e of
             HTTPBadRequest m \<Rightarrow> raise e
           | _ \<Rightarrow> raise (HTTPInternalServerError ''Failed to retrieve platforms'')))"

section \<open>A collection that answers queries\<close>

text \<open>
  Modelled from the spec: what the store does with a query is not part of the sources
  (it is MongoDB's). Section 4.1 gives it: keep the rows that match the name filter and
  whose identifier is strictly after the cursor in the order of identifiers, sort them by
  the sort field in the requested order with ties broken by ascending identifier, and
  return the first \<open>q_limit\<close> of them. How the name filter matches and how a sort field is
  read off a row are left open by the specification, and are parameters. \<open>Down\<close> reverses
  the order of the sort field for a descending sort.
\<close>

datatype 'a down = Down 'a

instantiation down :: (linorder) linorder
begin

fun less_eq_down :: "'a down \<Rightarrow> 'a down \<Rightarrow> bool" where
  "less_eq_down (Down x) (Down y) = (y \<le> x)"

fun less_down :: "'a down \<Rightarrow> 'a down \<Rightarrow> bool" where
  "less_down (Down x) (Down y) = (y < x)"

instance
proof
  fix x y z :: "'a down"
  show "(x < y) = (x \<le> y \<and> \<not> y \<le> x)" by (cases x; cases y) auto
  show "x \<le> x" by (cases x) simp
  show "x \<le> y \<Longrightarrow> y \<le> z \<Longrightarrow> x \<le> z" by (cases x; cases y; cases z) simp
  show "x \<le> y \<Longrightarrow> y \<le> x \<Longrightarrow> x = y" by (cases x; cases y) simp
  show "x \<le> y \<or> y \<le> x" by (cases x; cases y) auto
qed

end

text \<open>
  Modelled from the spec: step 2 of section 4.1, the sort by the sort field in the
  requested order, then by identifier ascending.
\<close>

definition sort_rows :: "('d \<Rightarrow> 'i::linorder) \<Rightarrow> ('d \<Rightarrow> 'k::linorder) \<Rightarrow> string \<Rightarrow> 'd list \<Rightarrow> 'd list" where
  "sort_rows rid key order rows =
     (if order = ''desc'' then sort_key (\<lambda>d. (Down (key d), rid d)) rows
      else sort_key (\<lambda>d. (key d, rid d)) rows)"

text \<open>Modelled from the spec: step 1 of section 4.1, the name filter, if present.\<close>

definition selected :: "(string \<Rightarrow> 'd \<Rightarrow> bool) \<Rightarrow> string option \<Rightarrow> 'd \<Rightarrow> bool" where
  "selected matches name d = (case name of None \<Rightarrow> True | Some n \<Rightarrow> matches n d)"

text \<open>
  Modelled from the spec: step 1 of section 4.1, the cursor predicate, if present: the
  identifier of the row is strictly after the cursor.
\<close>

definition after :: "('d \<Rightarrow> 'i::linorder) \<Rightarrow> 'i option \<Rightarrow> 'd \<Rightarrow> bool" where
  "after rid cursor d = (case cursor of None \<Rightarrow> True | Some c \<Rightarrow> c < rid d)"

text \<open>Modelled from the spec: the rows that answer a query, steps 1 to 3 of section 4.1.\<close>

definition list_query ::
  "('d \<Rightarrow> 'i::linorder) \<Rightarrow> (string \<Rightarrow> 'd \<Rightarrow> 'k::linorder) \<Rightarrow> (string \<Rightarrow> 'd \<Rightarrow> bool) \<Rightarrow> 'd list \<Rightarrow>
     'i query \<Rightarrow> 'd list"
where
  "list_query rid key matches coll q =
     take (q_limit q)
       (sort_rows rid (key (q_sort_by q)) (q_order q)
          (filter (\<lambda>d. selected matches (q_name q) d \<and> after rid (q_after_id q) d) coll))"

text \<open>
  Modelled from the spec: a store that serves the fixed collection \<open>coll\<close>. Whatever else
  the store \<open>base\<close> does, it hands out the handle and answers every query from \<open>coll\<close>,
  without changing it.
\<close>

definition serving ::
  "('v, 'd, 'i::linorder, 'c, 'st) mongo_io \<Rightarrow> 'c \<Rightarrow> ('d \<Rightarrow> 'i) \<Rightarrow> (string \<Rightarrow> 'd \<Rightarrow> 'k::linorder) \<Rightarrow>
     (string \<Rightarrow> 'd \<Rightarrow> bool) \<Rightarrow> 'd list \<Rightarrow> ('v, 'd, 'i, 'c, 'st) mongo_io"
where
  "serving base handle rid key matches coll =
     base\<lparr>get_collection := (\<lambda>name. returns handle),
          run_query := (\<lambda>c q. returns (list_query rid key matches coll q)),
          row_id := rid\<rparr>"

text \<open>
  Modelled from the spec: the scroll of a client (section 8). Call the list operation
  with no cursor, then with the \<^verbatim>\<open>next_cursor\<close> of the page before, until
  \<^verbatim>\<open>has_more\<close> is false. The result is the concatenation of the pages' items;
  \<open>None\<close> is a scroll that has not ended within the given number of calls.
\<close>

fun scroll ::
  "nat \<Rightarrow> (string option \<Rightarrow> ('d page, 'st) io) \<Rightarrow> string option \<Rightarrow> 'st \<Rightarrow> (exn + 'd list) option"
where
  "scroll 0 list_op after_id st = None"
| "scroll (Suc fuel) list_op after_id st =
     (case list_op after_id st of
        (Inl e, st') \<Rightarrow> Some (Inl e)
      | (Inr page, st') \<Rightarrow>
          if has_more page
          then (case scroll fuel list_op (next_cursor page) st' of
                  None \<Rightarrow> None
                | Some (Inl e) \<Rightarrow> Some (Inl e)
                | Some (Inr rest) \<Rightarrow> Some (Inr (items page @ rest)))
          else Some (Inr (items page)))"

section \<open>Test doubles\<close>

text \<open>
  The unit tests of the repository run the service against a mock of the store that
  returns (or raises) what the test configured and records the calls made. The mock here
  does the same: its state is the list of calls so far.
\<close>

datatype ('v, 'i, 'c) call =
    Create_document string "'v dict"
  | Get_document string string
  | Update_document string string "'v dict"
  | Get_collection string
  | Run_query 'c "'i query"

record ('v, 'd, 'c) return_values =
  create_document_rv :: "exn + string"
  get_document_rv :: "exn + 'v dict option"
  update_document_rv :: "exn + 'v dict option"
  get_collection_rv :: "exn + 'c"
  run_query_rv :: "exn + 'd list"

definition answer :: "exn + 'a \<Rightarrow> 'call \<Rightarrow> ('a, 'call list) io" where
  "answer rv c st = (rv, st @ [c])"

definition mock_mongo ::
  "('v, 'd, 'c) return_values \<Rightarrow> (string \<Rightarrow> 'i option) \<Rightarrow> ('i \<Rightarrow> string) \<Rightarrow> ('d \<Rightarrow> 'i) \<Rightarrow>
     ('v, 'd, 'i, 'c, ('v, 'i, 'c) call list) mongo_io"
where
  "mock_mongo rv parse str rid =
     \<lparr>create_document = (\<lambda>name data. answer (create_document_rv rv) (Create_document name data)),
      get_document = (\<lambda>name i. answer (get_document_rv rv) (Get_document name i)),
      update_document =
        (\<lambda>name i set_data. answer (update_document_rv rv) (Update_document name i set_data)),
      get_collection = (\<lambda>name. answer (get_collection_rv rv) (Get_collection name)),
      run_query = (\<lambda>c q. answer (run_query_rv rv) (Run_query c q)),
      parse_id = parse, str_id = str, row_id = rid\<rparr>"

text \<open>
  The identifiers of the tests are MongoDB object identifiers. \<^verbatim>\<open>ObjectId(s)\<close> accepts a
  string of 24 hexadecimal digits in either case, and \<^verbatim>\<open>str\<close> prints an identifier in lower
  case: a parsed identifier is kept in its printed form, and identifiers are ordered as
  these strings are.
\<close>

definition is_hex_digit :: "char \<Rightarrow> bool" where
  "is_hex_digit c = (c \<in> set ''0123456789abcdefABCDEF'')"

definition lower_hex :: "char \<Rightarrow> char" where
  "lower_hex c =
     (if c = CHR ''A'' then CHR ''a'' else if c = CHR ''B'' then CHR ''b''
      else if c = CHR ''C'' then CHR ''c'' else if c = CHR ''D'' then CHR ''d''
      else if c = CHR ''E'' then CHR ''e'' else if c = CHR ''F'' then CHR ''f'' else c)"

definition object_id :: "string \<Rightarrow> string option" where
  "object_id s =
     (if length s = 24 \<and> list_all is_hex_digit s then Some (map lower_hex s) else None)"

text \<open>
  The values of the tests: the collection name, the token and the breadcrumb of the test
  fixture, and rows that carry an identifier and string fields. A sort field of a row is
  the value stored under it, if any; the name filter matches the rows of that name.
\<close>

datatype json = JStr string | JList "json list" | JDict "(string \<times> json) list"

definition mock_config :: config where
  "mock_config = \<lparr>PLATFORM_COLLECTION_NAME = ''Platform''\<rparr>"

definition mock_token :: "json token" where
  "mock_token = Some [''user_id'' \<mapsto> JStr ''test_user'', ''roles'' \<mapsto> JList [JStr ''admin'']]"

definition mock_breadcrumb :: json where
  "mock_breadcrumb =
     JDict [(''at_time'', JStr ''2024-01-01T00:00:00Z''), (''by_user'', JStr ''test_user''),
            (''from_ip'', JStr ''127.0.0.1''), (''correlation_id'', JStr ''test-correlation-id'')]"

type_synonym row = "string \<times> (string \<times> string) list"

definition field_of :: "string \<Rightarrow> row \<Rightarrow> string option" where
  "field_of f d = map_of (snd d) f"

definition name_is :: "string \<Rightarrow> row \<Rightarrow> bool" where
  "name_is n d = (field_of ''name'' d = Some n)"

definition mock_rv :: "(json, row, unit) return_values" where
  "mock_rv =
     \<lparr>create_document_rv = Inr ''123'',
      get_document_rv = Inr (Some [''_id'' \<mapsto> JStr ''123'', ''name'' \<mapsto> JStr ''user1'']),
      update_document_rv = Inr (Some [''_id'' \<mapsto> JStr ''123'', ''name'' \<mapsto> JStr ''updated-user'']),
      get_collection_rv = Inr (),
      run_query_rv =
        Inr [(''507f1f77bcf86cd799439011'', [(''name'', ''user1'')]),
             (''507f1f77bcf86cd799439012'', [(''name'', ''user2'')])]\<rparr>"

definition test_mongo ::
  "(json, row, unit) return_values \<Rightarrow>
     (json, row, string, unit, (json, string, unit) call list) mongo_io"
where
  "test_mongo rv = mock_mongo rv object_id (\<lambda>i. i) fst"

definition test_collection ::
  "row list \<Rightarrow> (json, row, string, unit, (json, string, unit) call list) mongo_io"
where
  "test_collection coll = serving (test_mongo mock_rv) () fst field_of name_is coll"

text \<open>
  Two collections of three documents: in the first the names ascend with the identifiers,
  in the second they do not.
\<close>

definition names_in_order :: "row list" where
  "names_in_order =
     [(''507f1f77bcf86cd799439011'', [(''name'', ''alpha'')]),
      (''507f1f77bcf86cd799439012'', [(''name'', ''beta'')]),
      (''507f1f77bcf86cd799439013'', [(''name'', ''gamma'')])]"

definition names_out_of_order :: "row list" where
  "names_out_of_order =
     [(''507f1f77bcf86cd799439011'', [(''name'', ''beta'')]),
      (''507f1f77bcf86cd799439012'', [(''name'', ''alpha'')]),
      (''507f1f77bcf86cd799439013'', [(''name'', ''gamma'')])]"


section \<open>Evaluating the service\<close>

lemma validate_fields_find:
  "validate_fields fs data st =
     (case find (\<lambda>f. data f \<noteq> None) fs of
        None \<Rightarrow> (Inr (), st)
      | Some f \<Rightarrow> (Inl (HTTPForbidden (''Cannot update '' @ f @ '' field'')), st))"
  by (induction fs) (simp_all add: returns_def raise_def)

lemma check_permission_passes: "check_permission token operation st = (Inr (), st)"
  by (simp add: check_permission_def returns_def)

lemma create_platform_store_raises:
  assumes "create_document mongo (PLATFORM_COLLECTION_NAME config) (stamp data breadcrumb) st
             = (Inl e, st')"
  shows "create_platform mongo config data token breadcrumb st =
           ((case e of
               HTTPForbidden m \<Rightarrow> Inl e
             | _ \<Rightarrow> Inl (HTTPInternalServerError (''Failed to create platform: '' @ str_exn e))),
            st')"
  unfolding create_platform_def using assms
  by (cases e) (simp_all add: check_permission_def then_do_def returns_def try_except_def raise_def)

lemma create_platform_store_returns:
  assumes "create_document mongo (PLATFORM_COLLECTION_NAME config) (stamp data breadcrumb) st
             = (Inr platform_id, st')"
  shows "create_platform mongo config data token breadcrumb st =
           ((case token of
               None \<Rightarrow> Inl (HTTPInternalServerError
                              (''Failed to create platform: '' @ str_exn no_attribute_get))
             | Some t \<Rightarrow> Inr platform_id),
            st')"
  unfolding create_platform_def using assms
  by (cases token)
    (simp_all add: check_permission_def then_do_def returns_def try_except_def raise_def
      token_get_def no_attribute_get_def)

lemma get_platform_store_raises:
  assumes "get_document mongo (PLATFORM_COLLECTION_NAME config) platform_id st = (Inl e, st')"
  shows "get_platform mongo config platform_id token breadcrumb st =
           ((case e of
               HTTPNotFound m \<Rightarrow> Inl e
             | _ \<Rightarrow> Inl (HTTPInternalServerError (''Failed to retrieve platform '' @ platform_id))),
            st')"
  unfolding get_platform_def using assms
  by (cases e) (simp_all add: check_permission_def then_do_def returns_def try_except_def raise_def)

lemma get_platform_store_returns:
  assumes "get_document mongo (PLATFORM_COLLECTION_NAME config) platform_id st = (Inr r, st')"
  shows "get_platform mongo config platform_id token breadcrumb st =
           ((case r of
               None \<Rightarrow> Inl (HTTPNotFound (''Platform '' @ platform_id @ '' not found''))
             | Some p \<Rightarrow>
                 (case token of
                    None \<Rightarrow> Inl (HTTPInternalServerError
                                   (''Failed to retrieve platform '' @ platform_id))
                  | Some t \<Rightarrow> Inr p)),
            st')"
  unfolding get_platform_def using assms
  by (cases r; cases token)
    (simp_all add: check_permission_def then_do_def returns_def try_except_def raise_def
      token_get_def no_attribute_get_def)

lemma update_platform_restricted:
  assumes "find (\<lambda>f. data f \<noteq> None) restricted_fields = Some f"
  shows "update_platform mongo config platform_id data token breadcrumb st =
           (Inl (HTTPForbidden (''Cannot update '' @ f @ '' field'')), st)"
  unfolding update_platform_def using assms
  by (simp add: check_permission_def validate_update_data_def validate_fields_find
      then_do_def returns_def try_except_def raise_def)

lemma update_platform_store_raises:
  assumes "find (\<lambda>f. data f \<noteq> None) restricted_fields = None"
    and "update_document mongo (PLATFORM_COLLECTION_NAME config) platform_id
           (set_data_of data breadcrumb) st = (Inl e, st')"
  shows "update_platform mongo config platform_id data token breadcrumb st =
           ((case e of
               HTTPForbidden m \<Rightarrow> Inl e
             | HTTPNotFound m \<Rightarrow> Inl e
             | _ \<Rightarrow> Inl (HTTPInternalServerError (''Failed to update platform '' @ platform_id))),
            st')"
  unfolding update_platform_def using assms
  by (cases e)
    (simp_all add: check_permission_def validate_update_data_def validate_fields_find
      then_do_def returns_def try_except_def raise_def)

lemma update_platform_store_returns:
  assumes "find (\<lambda>f. data f \<noteq> None) restricted_fields = None"
    and "update_document mongo (PLATFORM_COLLECTION_NAME config) platform_id
           (set_data_of data breadcrumb) st = (Inr r, st')"
  shows "update_platform mongo config platform_id data token breadcrumb st =
           ((case r of
               None \<Rightarrow> Inl (HTTPNotFound (''Platform '' @ platform_id @ '' not found''))
             | Some u \<Rightarrow>
                 (case token of
                    None \<Rightarrow> Inl (HTTPInternalServerError
                                   (''Failed to update platform '' @ platform_id))
                  | Some t \<Rightarrow> Inr u)),
            st')"
  unfolding update_platform_def using assms
  by (cases r; cases token)
    (simp_all add: check_permission_def validate_update_data_def validate_fields_find
      then_do_def returns_def try_except_def raise_def token_get_def no_attribute_get_def)

section \<open>Evaluating the list operation\<close>

lemma engine_limit_small:
  assumes "lim < 1"
  shows "execute_infinite_scroll_query mongo c name after_id lim sort_by order allowed st =
           (Inl (HTTPBadRequest ''limit must be >= 1''), st)"
  using assms by (simp add: execute_infinite_scroll_query_def raise_def)

lemma engine_limit_large:
  assumes "lim > 100"
  shows "execute_infinite_scroll_query mongo c name after_id lim sort_by order allowed st =
           (Inl (HTTPBadRequest ''limit must be <= 100''), st)"
  using assms by (simp add: execute_infinite_scroll_query_def raise_def)

lemma engine_sort_by:
  assumes "1 \<le> lim" "lim \<le> 100" "sort_by \<notin> set allowed"
  shows "execute_infinite_scroll_query mongo c name after_id lim sort_by order allowed st =
           (Inl (HTTPBadRequest (''sort_by must be one of: '' @ join '', '' allowed)), st)"
  using assms by (simp add: execute_infinite_scroll_query_def raise_def)



lemma engine_query:
  assumes "1 \<le> lim" "lim \<le> 100" "sort_by \<in> set allowed" "order = ''asc'' \<or> order = ''desc''"
    and "after_id = None \<or> (\<exists>s i. after_id = Some s \<and> parse_id mongo s = Some i)"
  shows "execute_infinite_scroll_query mongo c name after_id lim sort_by order allowed st =
           (case run_query mongo c
                   \<lparr>q_name = name, q_after_id = cursor_of mongo after_id, q_sort_by = sort_by,
                    q_order = order, q_limit = nat lim + 1\<rparr> st of
              (Inl e, st') \<Rightarrow> (Inl e, st')
            | (Inr rows, st') \<Rightarrow> (Inr (page_of (row_id mongo) (str_id mongo) lim rows), st'))"
  using assms
  by (auto simp add: execute_infinite_scroll_query_def raise_def then_do_def returns_def
      cursor_of_def split: prod.splits sum.splits)

lemma engine_invalid:
  assumes "lim < 1 \<or> lim > 100 \<or> sort_by \<notin> set allowed \<or> (order \<noteq> ''asc'' \<and> order \<noteq> ''desc'')
             \<or> (\<exists>s. after_id = Some s \<and> parse_id mongo s = None)"
  shows "\<exists>msg. execute_infinite_scroll_query mongo c name after_id lim sort_by order allowed st =
           (Inl (HTTPBadRequest msg), st)"
  using assms
  by (auto simp add: execute_infinite_scroll_query_def raise_def then_do_def returns_def
      split: option.splits)

lemma get_platforms_handle_raises:
  assumes "get_collection mongo (PLATFORM_COLLECTION_NAME config) st = (Inl e, st')"
  shows "get_platforms mongo config token breadcrumb name after_id limit_arg sort_by_arg order_arg
           st =
           ((case e of
               HTTPBadRequest m \<Rightarrow> Inl e
             | _ \<Rightarrow> Inl (HTTPInternalServerError ''Failed to retrieve platforms'')),
            st')"
  unfolding get_platforms_def Let_def using assms
  by (cases e) (simp_all add: check_permission_def then_do_def returns_def try_except_def raise_def)

lemma get_platforms_engine_raises:
  assumes "get_collection mongo (PLATFORM_COLLECTION_NAME config) st = (Inr c, st1)"
    and "execute_infinite_scroll_query mongo c name after_id (the_limit limit_arg)
           (the_sort_by sort_by_arg) (the_order order_arg) ALLOWED_SORT_FIELDS st1 = (Inl e, st2)"
  shows "get_platforms mongo config token breadcrumb name after_id limit_arg sort_by_arg order_arg
           st =
           ((case e of
               HTTPBadRequest m \<Rightarrow> Inl e
             | _ \<Rightarrow> Inl (HTTPInternalServerError ''Failed to retrieve platforms'')),
            st2)"
  unfolding get_platforms_def Let_def using assms
  by (cases e)
    (simp_all add: check_permission_def then_do_def returns_def try_except_def raise_def
      the_limit_def the_sort_by_def the_order_def)

lemma get_platforms_engine_returns:
  assumes "get_collection mongo (PLATFORM_COLLECTION_NAME config) st = (Inr c, st1)"
    and "execute_infinite_scroll_query mongo c name after_id (the_limit limit_arg)
           (the_sort_by sort_by_arg) (the_order order_arg) ALLOWED_SORT_FIELDS st1 = (Inr p, st2)"
  shows "get_platforms mongo config token breadcrumb name after_id limit_arg sort_by_arg order_arg
           st =
           ((case token of
               None \<Rightarrow> Inl (HTTPInternalServerError ''Failed to retrieve platforms'')
             | Some t \<Rightarrow> Inr p),
            st2)"
  unfolding get_platforms_def Let_def using assms
  by (cases token)
    (simp_all add: check_permission_def then_do_def returns_def try_except_def raise_def
      the_limit_def the_sort_by_def the_order_def token_get_def no_attribute_get_def)

section \<open>The scroll over a fixed collection\<close>

lemma filter_sort_rows:
  "filter P (sort_rows rid key order rows) = sort_rows rid key order (filter P rows)"
  by (simp add: sort_rows_def filter_sort)

lemma mset_sort_rows: "mset (sort_rows rid key order rows) = mset rows"
  by (simp add: sort_rows_def)

lemma set_sort_rows: "set (sort_rows rid key order rows) = set rows"
  by (simp add: sort_rows_def)

lemma filter_after_strict:
  fixes rid :: "'d \<Rightarrow> 'i::linorder"
  assumes "sorted_wrt (<) (map rid S)" and "0 < k" and "k \<le> length S"
  shows "filter (\<lambda>d. rid (S ! (k - 1)) < rid d) S = drop k S"
proof -
  have nth_lt: "\<And>i j. i < j \<Longrightarrow> j < length S \<Longrightarrow> rid (S ! i) < rid (S ! j)"
    using assms(1) by (simp add: sorted_wrt_map sorted_wrt_iff_nth_less)
  have "filter (\<lambda>d. rid (S ! (k - 1)) < rid d) (take k S) = []"
  proof -
    have "\<forall>d \<in> set (take k S). \<not> rid (S ! (k - 1)) < rid d"
    proof
      fix d assume "d \<in> set (take k S)"
      then obtain i where i: "i < k" "d = S ! i"
        using assms(3) by (auto simp: in_set_conv_nth)
      show "\<not> rid (S ! (k - 1)) < rid d"
      proof (cases "i = k - 1")
        case True
        with i show ?thesis by simp
      next
        case False
        with i have "i < k - 1" by simp
        with assms have "rid (S ! i) < rid (S ! (k - 1))" by (intro nth_lt) simp_all
        with i show ?thesis by simp
      qed
    qed
    then show ?thesis by (simp add: filter_empty_conv)
  qed
  moreover have "filter (\<lambda>d. rid (S ! (k - 1)) < rid d) (drop k S) = drop k S"
  proof -
    have "\<forall>d \<in> set (drop k S). rid (S ! (k - 1)) < rid d"
    proof
      fix d assume "d \<in> set (drop k S)"
      then obtain j where j: "j < length S - k" "d = S ! (k + j)"
        by (auto simp: in_set_conv_nth)
      with assms have "rid (S ! (k - 1)) < rid (S ! (k + j))" by (intro nth_lt) simp_all
      with j show "rid (S ! (k - 1)) < rid d" by simp
    qed
    then show ?thesis by simp
  qed
  ultimately show ?thesis
    by (metis append_Nil append_take_drop_id filter_append)
qed

lemma serving_simps:
  "get_collection (serving base handle rid key matches coll) n st = (Inr handle, st)"
  "run_query (serving base handle rid key matches coll) c q st =
     (Inr (list_query rid key matches coll q), st)"
  "row_id (serving base handle rid key matches coll) = rid"
  "parse_id (serving base handle rid key matches coll) = parse_id base"
  "str_id (serving base handle rid key matches coll) = str_id base"
  by (simp_all add: serving_def returns_def)

lemma list_query_at:
  fixes rid :: "'d \<Rightarrow> 'i::linorder" and key :: "string \<Rightarrow> 'd \<Rightarrow> 'k::linorder"
  assumes S: "S = sort_rows rid (key sort_by) order (filter (selected matches name) coll)"
    and strict: "sorted_wrt (<) (map rid S)" and k: "k \<le> length S"
  shows "list_query rid key matches coll
           \<lparr>q_name = name, q_after_id = (if k = 0 then None else Some (rid (S ! (k - 1)))),
            q_sort_by = sort_by, q_order = order, q_limit = n\<rparr> = take n (drop k S)"
proof -
  let ?cursor = "if k = 0 then None else Some (rid (S ! (k - 1)))"
  have "filter (\<lambda>d. selected matches name d \<and> after rid ?cursor d) coll =
          filter (after rid ?cursor) (filter (selected matches name) coll)"
    by (simp add: conj_commute)
  then have "sort_rows rid (key sort_by) order
               (filter (\<lambda>d. selected matches name d \<and> after rid ?cursor d) coll) =
             filter (after rid ?cursor) S"
    by (simp only: S filter_sort_rows)
  also have "\<dots> = drop k S"
  proof (cases "k = 0")
    case True
    have "filter (after rid None) S = S"
      by (simp add: after_def filter_id_conv)
    with True show ?thesis by simp
  next
    case False
    have "filter (after rid (Some (rid (S ! (k - 1))))) S =
            filter (\<lambda>d. rid (S ! (k - 1)) < rid d) S"
      by (rule filter_cong) (simp_all add: after_def)
    with False filter_after_strict [OF strict _ k] show ?thesis by simp
  qed
  finally show ?thesis by (simp add: list_query_def)
qed

lemma serving_get_platforms:
  fixes rid :: "'d \<Rightarrow> 'i::linorder" and key :: "string \<Rightarrow> 'd \<Rightarrow> 'k::linorder"
  assumes valid: "1 \<le> lim" "lim \<le> 100" "sort_by \<in> set ALLOWED_SORT_FIELDS"
      "order = ''asc'' \<or> order = ''desc''"
    and S: "S = sort_rows rid (key sort_by) order (filter (selected matches name) coll)"
    and strict: "sorted_wrt (<) (map rid S)" and k: "k \<le> length S"
    and roundtrip: "\<forall>d \<in> set coll. parse_id base (str_id base (rid d)) = Some (rid d)"
  shows "get_platforms (serving base handle rid key matches coll) config (Some t) breadcrumb name
           (if k = 0 then None else Some (str_id base (rid (S ! (k - 1)))))
           (Some lim) (Some sort_by) (Some order) st =
         (Inr (page_of rid (str_id base) lim (take (nat lim + 1) (drop k S))), st)"
proof -
  let ?M = "serving base handle rid key matches coll"
  let ?after = "if k = 0 then None else Some (str_id base (rid (S ! (k - 1))))"
  have mem: "k \<noteq> 0 \<Longrightarrow> S ! (k - 1) \<in> set coll"
  proof -
    assume "k \<noteq> 0"
    with k have "S ! (k - 1) \<in> set S" by (intro nth_mem) simp
    then show ?thesis by (simp add: S set_sort_rows)
  qed
  have cursor: "cursor_of ?M ?after = (if k = 0 then None else Some (rid (S ! (k - 1))))"
    using mem roundtrip by (simp add: cursor_of_def serving_simps)
  have ok: "?after = None \<or> (\<exists>s i. ?after = Some s \<and> parse_id ?M s = Some i)"
    using mem roundtrip by (simp add: serving_simps)
  have "execute_infinite_scroll_query ?M handle name ?after lim sort_by order
          ALLOWED_SORT_FIELDS st =
        (Inr (page_of rid (str_id base) lim (take (nat lim + 1) (drop k S))), st)"
    unfolding engine_query [OF valid ok] cursor
    by (simp add: serving_simps list_query_at [where key = key and sort_by = sort_by, OF S strict k])
  then show ?thesis
    by (simp add: get_platforms_engine_returns [where c = handle and ?st1.0 = st]
        serving_simps the_limit_def the_sort_by_def the_order_def)
qed

lemma scroll_serving:
  fixes rid :: "'d \<Rightarrow> 'i::linorder" and key :: "string \<Rightarrow> 'd \<Rightarrow> 'k::linorder"
  assumes valid: "1 \<le> lim" "lim \<le> 100" "sort_by \<in> set ALLOWED_SORT_FIELDS"
      "order = ''asc'' \<or> order = ''desc''"
    and S: "S = sort_rows rid (key sort_by) order (filter (selected matches name) coll)"
    and strict: "sorted_wrt (<) (map rid S)"
    and roundtrip: "\<forall>d \<in> set coll. parse_id base (str_id base (rid d)) = Some (rid d)"
    and k: "k \<le> length S" and fuel: "length S - k < fuel"
  shows "scroll fuel
           (\<lambda>a. get_platforms (serving base handle rid key matches coll) config (Some t) breadcrumb
                  name a (Some lim) (Some sort_by) (Some order))
           (if k = 0 then None else Some (str_id base (rid (S ! (k - 1))))) st =
         Some (Inr (drop k S))"
  using k fuel
proof (induction fuel arbitrary: k)
  case 0
  then show ?case by simp
next
  case (Suc fuel)
  let ?n = "nat lim"
  let ?rows = "take (?n + 1) (drop k S)"
  from valid have n: "0 < ?n" by simp
  note page = serving_get_platforms [where key = key and sort_by = sort_by,
      OF valid S strict Suc.prems(1) roundtrip]
  show ?case
  proof (cases "?n < length S - k")
    case True
    then have more: "length ?rows > ?n" by simp
    have nth: "?rows ! (?n - 1) = S ! (k + ?n - 1)"
      using True n by (simp add: add.commute)
    have k': "k + ?n \<le> length S" using True by simp
    have fuel': "length S - (k + ?n) < fuel" using Suc.prems(2) n True by simp
    have IH: "scroll fuel
           (\<lambda>a. get_platforms (serving base handle rid key matches coll) config (Some t) breadcrumb
                  name a (Some lim) (Some sort_by) (Some order))
           (Some (str_id base (rid (S ! (k + ?n - 1))))) st = Some (Inr (drop (k + ?n) S))"
      using Suc.IH [OF k' fuel'] n by simp
    have "take ?n (drop k S) @ drop (k + ?n) S = drop k S"
      by (metis add.commute append_take_drop_id drop_drop)
    with more nth IH show ?thesis
      by (simp add: page page_of_def min_def)
  next
    case False
    then have "\<not> length ?rows > ?n" by simp
    moreover have "take ?n ?rows = drop k S" using False by simp
    ultimately show ?thesis
      by (simp add: page page_of_def)
  qed
qed


lemma first_restricted:
  assumes "field \<in> set restricted_fields" and "data field \<noteq> None"
  obtains f where "find (\<lambda>f. data f \<noteq> None) restricted_fields = Some f"
    and "f \<in> set restricted_fields" and "data f \<noteq> None"
proof (cases "find (\<lambda>f. data f \<noteq> None) restricted_fields")
  case None
  then have "\<not> (\<exists>x. x \<in> set restricted_fields \<and> data x \<noteq> None)"
    using find_None_iff [of "\<lambda>f. data f \<noteq> None" restricted_fields] by simp
  with assms show ?thesis by blast
next
  case (Some f)
  then have "f \<in> set restricted_fields" "data f \<noteq> None"
    using find_Some_iff [of "\<lambda>f. data f \<noteq> None" restricted_fields f]
    by (auto simp: in_set_conv_nth)
  with Some that show ?thesis by blast
qed

lemma no_restricted:
  assumes "\<forall>f \<in> set restricted_fields. data f = None"
  shows "find (\<lambda>f. data f \<noteq> None) restricted_fields = None"
  using assms find_None_iff [of "\<lambda>f. data f \<noteq> None" restricted_fields] by simp

text \<open>
  Claim C7. An update whose payload has one of the keys \<^verbatim>\<open>_id\<close>, \<^verbatim>\<open>created\<close>, \<^verbatim>\<open>saved\<close>
  fails with \<open>HTTPForbidden\<close>; the message names a restricted key of the payload (the first
  one in the order \<^verbatim>\<open>_id\<close>, \<^verbatim>\<open>created\<close>, \<^verbatim>\<open>saved\<close>, hence that key when it is the only one);
  and the state of the store is the one before the call, whatever the store is: no method
  of the store has run.
\<close>

theorem update_rejects_restricted_fields:
  assumes "field \<in> set restricted_fields" and "data field \<noteq> None"
  shows "\<exists>f \<in> set restricted_fields. data f \<noteq> None \<and>
           ((\<forall>g \<in> set restricted_fields. data g \<noteq> None \<longrightarrow> g = field) \<longrightarrow> f = field) \<and>
           update_platform mongo config platform_id data token breadcrumb st =
             (Inl (HTTPForbidden (''Cannot update '' @ f @ '' field'')), st)"
proof -
  from assms obtain f where f: "find (\<lambda>f. data f \<noteq> None) restricted_fields = Some f"
    and mem: "f \<in> set restricted_fields" and present: "data f \<noteq> None"
    by (rule first_restricted)
  have "update_platform mongo config platform_id data token breadcrumb st =
          (Inl (HTTPForbidden (''Cannot update '' @ f @ '' field'')), st)"
    using f by (rule update_platform_restricted)
  moreover have "(\<forall>g \<in> set restricted_fields. data g \<noteq> None \<longrightarrow> g = field) \<longrightarrow> f = field"
    using mem present by blast
  ultimately show ?thesis using mem present by blast
qed

lemma test_mongo_simps:
  "create_document (test_mongo rv) n d st = (create_document_rv rv, st @ [Create_document n d])"
  "get_document (test_mongo rv) n i st = (get_document_rv rv, st @ [Get_document n i])"
  "update_document (test_mongo rv) n i d st = (update_document_rv rv, st @ [Update_document n i d])"
  "get_collection (test_mongo rv) n st = (get_collection_rv rv, st @ [Get_collection n])"
  "run_query (test_mongo rv) c q st = (run_query_rv rv, st @ [Run_query c q])"
  "parse_id (test_mongo rv) = object_id"
  "str_id (test_mongo rv) = (\<lambda>i. i)"
  "row_id (test_mongo rv) = fst"
  by (simp_all add: test_mongo_def mock_mongo_def answer_def)

text \<open>
  The third case of \<^verbatim>\<open>test_update_user_prevent_restricted_fields\<close>, run against the mock:
  the payload has \<^verbatim>\<open>created\<close>, the call is refused and the mock has recorded no call.
\<close>

theorem update_rejects_restricted_fields_witness:
  "''created'' \<in> set restricted_fields \<and>
   [''created'' \<mapsto> JDict [(''at_time'', JStr ''2024-01-01T00:00:00Z'')],
    ''name'' \<mapsto> JStr ''Updated''] ''created'' \<noteq> None \<and>
   update_platform (test_mongo mock_rv) mock_config ''123''
     [''created'' \<mapsto> JDict [(''at_time'', JStr ''2024-01-01T00:00:00Z'')],
      ''name'' \<mapsto> JStr ''Updated'']
     mock_token mock_breadcrumb [] =
   (Inl (HTTPForbidden ''Cannot update created field''), [])"
proof -
  let ?data = "[''created'' \<mapsto> JDict [(''at_time'', JStr ''2024-01-01T00:00:00Z'')],
                ''name'' \<mapsto> JStr ''Updated'']"
  have h1: "''created'' \<in> set restricted_fields" by (simp add: restricted_fields_def)
  have h2: "?data ''created'' \<noteq> None" by simp
  have only: "\<forall>g \<in> set restricted_fields. ?data g \<noteq> None \<longrightarrow> g = ''created''"
    by (simp add: restricted_fields_def)
  note inst = update_rejects_restricted_fields [where field = "''created''" and data = ?data
      and mongo = "test_mongo mock_rv" and config = mock_config and platform_id = "''123''"
      and token = mock_token and breadcrumb = mock_breadcrumb and st = "[]", OF h1 h2]
  then obtain f where f: "(\<forall>g \<in> set restricted_fields. ?data g \<noteq> None \<longrightarrow> g = ''created'') \<longrightarrow>
      f = ''created''"
    and upd: "update_platform (test_mongo mock_rv) mock_config ''123'' ?data mock_token
      mock_breadcrumb [] = (Inl (HTTPForbidden (''Cannot update '' @ f @ '' field'')), [])"
    by blast
  from f only have "f = ''created''" by (rule mp)
  with upd
  have "update_platform (test_mongo mock_rv) mock_config ''123'' ?data mock_token mock_breadcrumb []
          = (Inl (HTTPForbidden (''Cannot update '' @ ''created'' @ '' field'')), [])"
    by simp
  with h1 h2 show ?thesis by simp
qed

lemma try_except_never:
  assumes "\<And>e st'. fst (handler e st') \<noteq> Inl x"
  shows "fst (try_except m handler st) \<noteq> Inl x"
proof (cases "m st")
  case (Pair r st')
  with assms show ?thesis by (cases r) (simp_all add: try_except_def)
qed

lemma get_platform_not_forbidden:
  "fst (get_platform mongo config platform_id token breadcrumb st) \<noteq> Inl (HTTPForbidden m)"
  unfolding get_platform_def
  apply (rule try_except_never)
  subgoal for e st' by (cases e) (simp_all add: raise_def)
  done

lemma get_platforms_not_forbidden:
  "fst (get_platforms mongo config token breadcrumb name after_id limit_arg sort_by_arg order_arg
          st) \<noteq> Inl (HTTPForbidden m)"
  unfolding get_platforms_def Let_def
  apply (rule try_except_never)
  subgoal for e st' by (cases e) (simp_all add: raise_def)
  done

lemma create_platform_forbidden:
  assumes "fst (create_platform mongo config data token breadcrumb st) = Inl (HTTPForbidden m)"
  shows "fst (create_document mongo (PLATFORM_COLLECTION_NAME config) (stamp data breadcrumb) st)
           = Inl (HTTPForbidden m)"
proof (cases "create_document mongo (PLATFORM_COLLECTION_NAME config) (stamp data breadcrumb) st")
  case (Pair r st')
  show ?thesis
  proof (cases r)
    case (Inl e)
    with Pair have "create_document mongo (PLATFORM_COLLECTION_NAME config)
        (stamp data breadcrumb) st = (Inl e, st')" by simp
    from create_platform_store_raises [OF this, of token] assms Pair Inl
    show ?thesis by (cases e) simp_all
  next
    case (Inr i)
    with Pair have "create_document mongo (PLATFORM_COLLECTION_NAME config)
        (stamp data breadcrumb) st = (Inr i, st')" by simp
    from create_platform_store_returns [OF this, of token] assms
    show ?thesis by (cases token) simp_all
  qed
qed

lemma update_platform_forbidden:
  assumes "fst (update_platform mongo config platform_id data token breadcrumb st)
             = Inl (HTTPForbidden m)"
    and none: "find (\<lambda>f. data f \<noteq> None) restricted_fields = None"
  shows "fst (update_document mongo (PLATFORM_COLLECTION_NAME config) platform_id
                (set_data_of data breadcrumb) st) = Inl (HTTPForbidden m)"
proof (cases "update_document mongo (PLATFORM_COLLECTION_NAME config) platform_id
                (set_data_of data breadcrumb) st")
  case (Pair r st')
  show ?thesis
  proof (cases r)
    case (Inl e)
    with Pair have "update_document mongo (PLATFORM_COLLECTION_NAME config) platform_id
        (set_data_of data breadcrumb) st = (Inl e, st')" by simp
    from update_platform_store_raises [OF none this, of token] assms(1) Pair Inl
    show ?thesis by (cases e) simp_all
  next
    case (Inr u)
    with Pair have "update_document mongo (PLATFORM_COLLECTION_NAME config) platform_id
        (set_data_of data breadcrumb) st = (Inr u, st')" by simp
    from update_platform_store_returns [OF none this, of token] assms(1)
    show ?thesis by (cases u; cases token) simp_all
  qed
qed

text \<open>
  Claim C10, as the code has it. The permission check returns for every token and
  operation. Listing and reading never fail with \<open>HTTPForbidden\<close>. Creating fails with it
  only when the store's \<^verbatim>\<open>create_document\<close> has raised that very exception, and updating
  only when the payload has a restricted key and the message is that rejection, or when
  the store's \<^verbatim>\<open>update_document\<close> has raised that very exception: the handlers of both
  operations raise an \<open>HTTPForbidden\<close> again as it is.
\<close>

theorem permission_check_never_denies:
  "check_permission token operation st = (Inr (), st) \<and>
   fst (get_platforms mongo config token breadcrumb name after_id limit_arg sort_by_arg order_arg
          st) \<noteq> Inl (HTTPForbidden m) \<and>
   fst (get_platform mongo config platform_id token breadcrumb st) \<noteq> Inl (HTTPForbidden m) \<and>
   (fst (create_platform mongo config data token breadcrumb st) = Inl (HTTPForbidden m) \<longrightarrow>
      fst (create_document mongo (PLATFORM_COLLECTION_NAME config) (stamp data breadcrumb) st)
        = Inl (HTTPForbidden m)) \<and>
   (fst (update_platform mongo config platform_id data token breadcrumb st)
        = Inl (HTTPForbidden m) \<longrightarrow>
      (\<exists>f \<in> set restricted_fields. data f \<noteq> None \<and> m = ''Cannot update '' @ f @ '' field'') \<or>
      fst (update_document mongo (PLATFORM_COLLECTION_NAME config) platform_id
             (set_data_of data breadcrumb) st) = Inl (HTTPForbidden m))"
proof (intro conjI impI)
  show "check_permission token operation st = (Inr (), st)"
    by (rule check_permission_passes)
  show "fst (get_platforms mongo config token breadcrumb name after_id limit_arg sort_by_arg
          order_arg st) \<noteq> Inl (HTTPForbidden m)"
    by (rule get_platforms_not_forbidden)
  show "fst (get_platform mongo config platform_id token breadcrumb st) \<noteq> Inl (HTTPForbidden m)"
    by (rule get_platform_not_forbidden)
next
  assume "fst (create_platform mongo config data token breadcrumb st) = Inl (HTTPForbidden m)"
  then show "fst (create_document mongo (PLATFORM_COLLECTION_NAME config) (stamp data breadcrumb)
                st) = Inl (HTTPForbidden m)"
    by (rule create_platform_forbidden)
next
  assume a: "fst (update_platform mongo config platform_id data token breadcrumb st)
        = Inl (HTTPForbidden m)"
  show "(\<exists>f \<in> set restricted_fields. data f \<noteq> None \<and> m = ''Cannot update '' @ f @ '' field'') \<or>
      fst (update_document mongo (PLATFORM_COLLECTION_NAME config) platform_id
             (set_data_of data breadcrumb) st) = Inl (HTTPForbidden m)"
  proof (cases "find (\<lambda>f. data f \<noteq> None) restricted_fields")
    case None
    with a have "fst (update_document mongo (PLATFORM_COLLECTION_NAME config) platform_id
             (set_data_of data breadcrumb) st) = Inl (HTTPForbidden m)"
      by (rule update_platform_forbidden)
    then show ?thesis by (rule disjI2)
  next
    case (Some f)
    then have mem: "f \<in> set restricted_fields" and present: "data f \<noteq> None"
      using find_Some_iff [of "\<lambda>f. data f \<noteq> None" restricted_fields f]
      by (auto simp: in_set_conv_nth)
    from update_platform_restricted [OF Some, of mongo config platform_id token breadcrumb st] a
    have "m = ''Cannot update '' @ f @ '' field''" by simp
    with mem present show ?thesis by blast
  qed
qed

text \<open>
  The first case of \<^verbatim>\<open>test_update_user_prevent_restricted_fields\<close>, with no token at all:
  the permission check passes, and the \<open>HTTPForbidden\<close> of the update is the rejection of
  the key \<^verbatim>\<open>_id\<close>. And a create that ends in \<open>HTTPForbidden\<close>: the store has raised it.
\<close>

theorem permission_check_never_denies_witness:
  "check_permission (None :: json token) ''update'' ([] :: (json, string, unit) call list)
     = (Inr (), []) \<and>
   fst (update_platform (test_mongo mock_rv) mock_config ''123''
          [''_id'' \<mapsto> JStr ''999'', ''name'' \<mapsto> JStr ''Updated''] None mock_breadcrumb [])
     = Inl (HTTPForbidden ''Cannot update _id field'') \<and>
   ((\<exists>f \<in> set restricted_fields.
       [''_id'' \<mapsto> JStr ''999'', ''name'' \<mapsto> JStr ''Updated''] f \<noteq> None \<and>
       ''Cannot update _id field'' = ''Cannot update '' @ f @ '' field'') \<or>
    fst (update_document (test_mongo mock_rv) (PLATFORM_COLLECTION_NAME mock_config) ''123''
           (set_data_of [''_id'' \<mapsto> JStr ''999'', ''name'' \<mapsto> JStr ''Updated''] mock_breadcrumb) [])
      = Inl (HTTPForbidden ''Cannot update _id field'')) \<and>
   fst (create_platform
          (test_mongo (mock_rv\<lparr>create_document_rv := Inl (HTTPForbidden ''read-only store'')\<rparr>))
          mock_config [''name'' \<mapsto> JStr ''new-user''] None mock_breadcrumb [])
     = Inl (HTTPForbidden ''read-only store'') \<and>
   fst (create_document
          (test_mongo (mock_rv\<lparr>create_document_rv := Inl (HTTPForbidden ''read-only store'')\<rparr>))
          (PLATFORM_COLLECTION_NAME mock_config)
          (stamp [''name'' \<mapsto> JStr ''new-user''] mock_breadcrumb) [])
     = Inl (HTTPForbidden ''read-only store'')"
proof -
  let ?data = "[''_id'' \<mapsto> JStr ''999'', ''name'' \<mapsto> JStr ''Updated'']"
  let ?rv = "mock_rv\<lparr>create_document_rv := Inl (HTTPForbidden ''read-only store'')\<rparr>"
  let ?new = "[''name'' \<mapsto> JStr ''new-user'']"
  note inst = permission_check_never_denies [where token = "None :: json token"
      and operation = "''update''" and st = "[] :: (json, string, unit) call list"
      and mongo = "test_mongo mock_rv" and config = mock_config and platform_id = "''123''"
      and data = ?data and breadcrumb = mock_breadcrumb and m = "''Cannot update _id field''"]
  note inst_create = permission_check_never_denies [where token = "None :: json token"
      and operation = "''create''" and st = "[] :: (json, string, unit) call list"
      and mongo = "test_mongo ?rv" and config = mock_config and platform_id = "''123''"
      and data = ?new and breadcrumb = mock_breadcrumb and m = "''read-only store''"]
  have "find (\<lambda>f. ?data f \<noteq> None) restricted_fields = Some ''_id''"
    by (simp add: restricted_fields_def)
  then have forbidden: "fst (update_platform (test_mongo mock_rv) mock_config ''123'' ?data None
      mock_breadcrumb []) = Inl (HTTPForbidden ''Cannot update _id field'')"
    by (simp add: update_platform_restricted)
  have "create_document (test_mongo ?rv) (PLATFORM_COLLECTION_NAME mock_config)
          (stamp ?new mock_breadcrumb) []
        = (Inl (HTTPForbidden ''read-only store''),
           [Create_document ''Platform'' (stamp ?new mock_breadcrumb)])"
    by (simp add: test_mongo_simps mock_config_def)
  from create_platform_store_raises [OF this, of None]
  have passed_on: "fst (create_platform (test_mongo ?rv) mock_config ?new None mock_breadcrumb [])
      = Inl (HTTPForbidden ''read-only store'')"
    by simp
  from inst have "check_permission (None :: json token) ''update''
      ([] :: (json, string, unit) call list) = (Inr (), [])"
    by (rule conjunct1)
  moreover from inst forbidden
  have "(\<exists>f \<in> set restricted_fields. ?data f \<noteq> None \<and>
           ''Cannot update _id field'' = ''Cannot update '' @ f @ '' field'') \<or>
        fst (update_document (test_mongo mock_rv) (PLATFORM_COLLECTION_NAME mock_config) ''123''
               (set_data_of ?data mock_breadcrumb) [])
          = Inl (HTTPForbidden ''Cannot update _id field'')"
    by blast
  moreover from inst_create passed_on
  have "fst (create_document (test_mongo ?rv) (PLATFORM_COLLECTION_NAME mock_config)
               (stamp ?new mock_breadcrumb) []) = Inl (HTTPForbidden ''read-only store'')"
    by blast
  ultimately show ?thesis using forbidden passed_on by blast
qed

text \<open>
  Claim C10 as stated fails when the store raises \<open>HTTPForbidden\<close>: creating, and updating
  with a payload that has no restricted key, end in that exception, which is not the
  rejection of a restricted field.
\<close>

theorem store_forbidden_reaches_caller:
  "create_platform (test_mongo (mock_rv\<lparr>create_document_rv := Inl (HTTPForbidden ''denied'')\<rparr>))
     mock_config [''name'' \<mapsto> JStr ''test-user''] mock_token mock_breadcrumb []
     = (Inl (HTTPForbidden ''denied''),
        [Create_document ''Platform''
           [''name'' \<mapsto> JStr ''test-user'', ''created'' \<mapsto> mock_breadcrumb,
            ''saved'' \<mapsto> mock_breadcrumb]]) \<and>
   find (\<lambda>f. [''name'' \<mapsto> JStr ''Updated''] f \<noteq> None) restricted_fields = None \<and>
   update_platform (test_mongo (mock_rv\<lparr>update_document_rv := Inl (HTTPForbidden ''denied'')\<rparr>))
     mock_config ''123'' [''name'' \<mapsto> JStr ''Updated''] mock_token mock_breadcrumb []
     = (Inl (HTTPForbidden ''denied''),
        [Update_document ''Platform'' ''123''
           [''name'' \<mapsto> JStr ''Updated'', ''saved'' \<mapsto> mock_breadcrumb]])"
proof -
  let ?rvc = "mock_rv\<lparr>create_document_rv := Inl (HTTPForbidden ''denied'')\<rparr>"
  let ?rvu = "mock_rv\<lparr>update_document_rv := Inl (HTTPForbidden ''denied'')\<rparr>"
  let ?new = "[''name'' \<mapsto> JStr ''test-user'']"
  let ?change = "[''name'' \<mapsto> JStr ''Updated'']"
  have sent: "stamp ?new mock_breadcrumb =
      [''name'' \<mapsto> JStr ''test-user'', ''created'' \<mapsto> mock_breadcrumb,
       ''saved'' \<mapsto> mock_breadcrumb]"
    by (rule ext) (simp add: stamp_def)
  have "create_document (test_mongo ?rvc) (PLATFORM_COLLECTION_NAME mock_config)
          (stamp ?new mock_breadcrumb) []
        = (Inl (HTTPForbidden ''denied''),
           [Create_document ''Platform'' (stamp ?new mock_breadcrumb)])"
    by (simp add: test_mongo_simps mock_config_def)
  from create_platform_store_raises [OF this, of mock_token]
  have create: "create_platform (test_mongo ?rvc) mock_config ?new mock_token mock_breadcrumb []
      = (Inl (HTTPForbidden ''denied''),
         [Create_document ''Platform'' (stamp ?new mock_breadcrumb)])"
    by simp
  have none: "find (\<lambda>f. ?change f \<noteq> None) restricted_fields = None"
    by (simp add: restricted_fields_def)
  have set_data: "set_data_of ?change mock_breadcrumb =
      [''name'' \<mapsto> JStr ''Updated'', ''saved'' \<mapsto> mock_breadcrumb]"
    by (rule ext) (simp add: set_data_of_def restricted_fields_def)
  have "update_document (test_mongo ?rvu) (PLATFORM_COLLECTION_NAME mock_config) ''123''
          (set_data_of ?change mock_breadcrumb) []
        = (Inl (HTTPForbidden ''denied''),
           [Update_document ''Platform'' ''123'' (set_data_of ?change mock_breadcrumb)])"
    by (simp add: test_mongo_simps mock_config_def)
  from update_platform_store_raises [OF none this, of mock_token]
  have update: "update_platform (test_mongo ?rvu) mock_config ''123'' ?change mock_token
      mock_breadcrumb []
      = (Inl (HTTPForbidden ''denied''),
         [Update_document ''Platform'' ''123'' (set_data_of ?change mock_breadcrumb)])"
    by simp
  from create update none show ?thesis by (simp only: sent set_data simp_thms)
qed

lemma stamp_apply:
  "stamp data breadcrumb k =
     (if k = ''saved'' \<or> k = ''created'' then Some breadcrumb
      else if k = ''_id'' then None else data k)"
  by (simp add: stamp_def Let_def)

lemma stamp_ignores_id: "stamp (data(''_id'' \<mapsto> v)) breadcrumb = stamp (data(''_id'' := None)) breadcrumb"
  by (rule ext) (simp add: stamp_apply)

lemma create_platform_stamp_cong:
  assumes "stamp data breadcrumb = stamp data' breadcrumb"
  shows "create_platform mongo config data token breadcrumb st =
         create_platform mongo config data' token breadcrumb st"
  using assms by (simp add: create_platform_def)

text \<open>
  Claim C6. Creating never rejects a payload for its \<^verbatim>\<open>_id\<close>: the document handed to the
  store has no \<^verbatim>\<open>_id\<close>, has \<^verbatim>\<open>created\<close> and \<^verbatim>\<open>saved\<close> equal to the breadcrumb and every
  other field as the payload has it; when the store has stored it, the service returns the
  identifier that the store assigned, in the state the store left; and the outcome is the
  same whatever \<^verbatim>\<open>_id\<close> the payload carried.
\<close>

theorem create_stamps_and_drops_id:
  assumes "create_document mongo (PLATFORM_COLLECTION_NAME config) (stamp data breadcrumb) st
             = (Inr platform_id, st')"
  shows "create_platform mongo config data (Some t) breadcrumb st = (Inr platform_id, st') \<and>
         stamp data breadcrumb ''_id'' = None \<and>
         stamp data breadcrumb ''created'' = Some breadcrumb \<and>
         stamp data breadcrumb ''saved'' = Some breadcrumb \<and>
         (\<forall>k. k \<notin> {''_id'', ''created'', ''saved''} \<longrightarrow> stamp data breadcrumb k = data k) \<and>
         create_platform mongo config (data(''_id'' \<mapsto> v)) (Some t) breadcrumb st =
           create_platform mongo config (data(''_id'' := None)) (Some t) breadcrumb st"
proof -
  have "create_platform mongo config data (Some t) breadcrumb st = (Inr platform_id, st')"
    using create_platform_store_returns [OF assms, of "Some t"] by simp
  moreover have "create_platform mongo config (data(''_id'' \<mapsto> v)) (Some t) breadcrumb st =
           create_platform mongo config (data(''_id'' := None)) (Some t) breadcrumb st"
    by (rule create_platform_stamp_cong) (rule stamp_ignores_id)
  ultimately show ?thesis by (simp add: stamp_apply)
qed

text \<open>
  \<^verbatim>\<open>test_create_user_removes_id\<close>, run against the mock: the store is called once, with
  a document that has no \<^verbatim>\<open>_id\<close> and keeps the name, and its identifier is returned.
\<close>

theorem create_stamps_and_drops_id_witness:
  "create_document (test_mongo mock_rv) (PLATFORM_COLLECTION_NAME mock_config)
     (stamp [''_id'' \<mapsto> JStr ''should-be-removed'', ''name'' \<mapsto> JStr ''test''] mock_breadcrumb) []
     = (Inr ''123'',
        [Create_document ''Platform''
           (stamp [''_id'' \<mapsto> JStr ''should-be-removed'', ''name'' \<mapsto> JStr ''test'']
              mock_breadcrumb)]) \<and>
   create_platform (test_mongo mock_rv) mock_config
     [''_id'' \<mapsto> JStr ''should-be-removed'', ''name'' \<mapsto> JStr ''test''] mock_token mock_breadcrumb []
     = (Inr ''123'',
        [Create_document ''Platform''
           (stamp [''_id'' \<mapsto> JStr ''should-be-removed'', ''name'' \<mapsto> JStr ''test'']
              mock_breadcrumb)]) \<and>
   stamp [''_id'' \<mapsto> JStr ''should-be-removed'', ''name'' \<mapsto> JStr ''test''] mock_breadcrumb ''_id''
     = None \<and>
   stamp [''_id'' \<mapsto> JStr ''should-be-removed'', ''name'' \<mapsto> JStr ''test''] mock_breadcrumb ''name''
     = Some (JStr ''test'')"
proof -
  let ?data = "[''_id'' \<mapsto> JStr ''should-be-removed'', ''name'' \<mapsto> JStr ''test'']"
  let ?st' = "[Create_document ''Platform'' (stamp ?data mock_breadcrumb)]
                :: (json, string, unit) call list"
  have h: "create_document (test_mongo mock_rv) (PLATFORM_COLLECTION_NAME mock_config)
             (stamp ?data mock_breadcrumb) [] = (Inr ''123'', ?st')"
    by (simp add: test_mongo_simps mock_rv_def mock_config_def)
  note inst = create_stamps_and_drops_id [OF h,
      of "[''user_id'' \<mapsto> JStr ''test_user'', ''roles'' \<mapsto> JList [JStr ''admin'']]"]
  from inst have "create_platform (test_mongo mock_rv) mock_config ?data mock_token
      mock_breadcrumb [] = (Inr ''123'', ?st')"
    by (simp add: mock_token_def)
  moreover from inst have "stamp ?data mock_breadcrumb ''_id'' = None" by blast
  moreover from inst have "\<forall>k. k \<notin> {''_id'', ''created'', ''saved''} \<longrightarrow>
      stamp ?data mock_breadcrumb k = ?data k" by blast
  then have "stamp ?data mock_breadcrumb ''name'' = Some (JStr ''test'')" by simp
  ultimately show ?thesis using h by blast
qed

lemma set_data_of_unrestricted:
  assumes "\<forall>f \<in> set restricted_fields. data f = None"
  shows "set_data_of data breadcrumb = data(''saved'' \<mapsto> breadcrumb)"
proof (rule ext)
  fix k
  show "set_data_of data breadcrumb k = (data(''saved'' \<mapsto> breadcrumb)) k"
    using assms by (cases "k \<in> set restricted_fields") (simp_all add: set_data_of_def Let_def)
qed

text \<open>
  Claim C8. For a payload without restricted keys the service sends the store the payload
  itself as the fields to set, with \<^verbatim>\<open>saved\<close> set to the breadcrumb of this call; when the
  store answers with the updated document the service returns it, and when the store
  answers that there is no such document the service fails with \<open>HTTPNotFound\<close>: among the
  calls that the store answers, the failure is \<open>HTTPNotFound\<close> exactly when the store found
  no document.
\<close>

theorem update_applies_set_data:
  assumes "\<forall>f \<in> set restricted_fields. data f = None"
    and "update_document mongo (PLATFORM_COLLECTION_NAME config) platform_id
           (data(''saved'' \<mapsto> breadcrumb)) st = (Inr r, st')"
  shows "set_data_of data breadcrumb = data(''saved'' \<mapsto> breadcrumb) \<and>
         update_platform mongo config platform_id data (Some t) breadcrumb st =
           ((case r of
               None \<Rightarrow> Inl (HTTPNotFound (''Platform '' @ platform_id @ '' not found''))
             | Some u \<Rightarrow> Inr u),
            st') \<and>
         ((\<exists>m. fst (update_platform mongo config platform_id data (Some t) breadcrumb st)
                 = Inl (HTTPNotFound m)) \<longleftrightarrow> r = None)"
proof -
  have set_data: "set_data_of data breadcrumb = data(''saved'' \<mapsto> breadcrumb)"
    using assms(1) by (rule set_data_of_unrestricted)
  have none: "find (\<lambda>f. data f \<noteq> None) restricted_fields = None"
    using assms(1) by (rule no_restricted)
  have store: "update_document mongo (PLATFORM_COLLECTION_NAME config) platform_id
      (set_data_of data breadcrumb) st = (Inr r, st')"
    using assms(2) set_data by simp
  have result: "update_platform mongo config platform_id data (Some t) breadcrumb st =
           ((case r of
               None \<Rightarrow> Inl (HTTPNotFound (''Platform '' @ platform_id @ '' not found''))
             | Some u \<Rightarrow> Inr u),
            st')"
    using update_platform_store_returns [OF none store, of "Some t"] by (cases r) simp_all
  have "(\<exists>m. fst (update_platform mongo config platform_id data (Some t) breadcrumb st)
                 = Inl (HTTPNotFound m)) \<longleftrightarrow> r = None"
    unfolding result by (cases r) simp_all
  with set_data result show ?thesis by blast
qed

text \<open>
  \<^verbatim>\<open>test_update_user_success\<close>, run against the mock: the store is asked to set the two
  fields of the payload and \<^verbatim>\<open>saved\<close>, and the document it answers with is returned.
\<close>

theorem update_applies_set_data_witness:
  "[''name'' \<mapsto> JStr ''updated-user'', ''description'' \<mapsto> JStr ''Updated''] ''_id'' = None \<and>
   [''name'' \<mapsto> JStr ''updated-user'', ''description'' \<mapsto> JStr ''Updated''] ''created'' = None \<and>
   [''name'' \<mapsto> JStr ''updated-user'', ''description'' \<mapsto> JStr ''Updated''] ''saved'' = None \<and>
   update_document (test_mongo mock_rv) (PLATFORM_COLLECTION_NAME mock_config) ''123''
     ([''name'' \<mapsto> JStr ''updated-user'', ''description'' \<mapsto> JStr ''Updated'']
        (''saved'' \<mapsto> mock_breadcrumb)) []
     = (Inr (Some [''_id'' \<mapsto> JStr ''123'', ''name'' \<mapsto> JStr ''updated-user'']),
        [Update_document ''Platform'' ''123''
           ([''name'' \<mapsto> JStr ''updated-user'', ''description'' \<mapsto> JStr ''Updated'']
              (''saved'' \<mapsto> mock_breadcrumb))]) \<and>
   update_platform (test_mongo mock_rv) mock_config ''123''
     [''name'' \<mapsto> JStr ''updated-user'', ''description'' \<mapsto> JStr ''Updated''] mock_token
     mock_breadcrumb []
     = (Inr [''_id'' \<mapsto> JStr ''123'', ''name'' \<mapsto> JStr ''updated-user''],
        [Update_document ''Platform'' ''123''
           ([''name'' \<mapsto> JStr ''updated-user'', ''description'' \<mapsto> JStr ''Updated'']
              (''saved'' \<mapsto> mock_breadcrumb))])"
proof -
  let ?data = "[''name'' \<mapsto> JStr ''updated-user'', ''description'' \<mapsto> JStr ''Updated'']"
  let ?st' = "[Update_document ''Platform'' ''123'' (?data(''saved'' \<mapsto> mock_breadcrumb))]
                :: (json, string, unit) call list"
  have h1: "\<forall>f \<in> set restricted_fields. ?data f = None"
    by (simp add: restricted_fields_def)
  have h2: "update_document (test_mongo mock_rv) (PLATFORM_COLLECTION_NAME mock_config) ''123''
              (?data(''saved'' \<mapsto> mock_breadcrumb)) []
            = (Inr (Some [''_id'' \<mapsto> JStr ''123'', ''name'' \<mapsto> JStr ''updated-user'']), ?st')"
    by (simp add: test_mongo_simps mock_rv_def mock_config_def)
  note inst = update_applies_set_data [OF h1 h2,
      of "[''user_id'' \<mapsto> JStr ''test_user'', ''roles'' \<mapsto> JList [JStr ''admin'']]"]
  from inst have "update_platform (test_mongo mock_rv) mock_config ''123'' ?data mock_token
      mock_breadcrumb []
      = (Inr [''_id'' \<mapsto> JStr ''123'', ''name'' \<mapsto> JStr ''updated-user''], ?st')"
    by (simp add: mock_token_def)
  with h2 show ?thesis by simp
qed

lemma get_platforms_default_limit:
  "get_platforms mongo config token breadcrumb name after_id None sort_by_arg order_arg =
   get_platforms mongo config token breadcrumb name after_id (Some 10) sort_by_arg order_arg"
  by (simp add: get_platforms_def the_limit_def)

lemma get_platforms_default_sort_by:
  "get_platforms mongo config token breadcrumb name after_id limit_arg None order_arg =
   get_platforms mongo config token breadcrumb name after_id limit_arg (Some ''name'') order_arg"
  by (simp add: get_platforms_def the_sort_by_def)

lemma get_platforms_invalid:
  assumes handle: "get_collection mongo (PLATFORM_COLLECTION_NAME config) st = (Inr c, st1)"
    and engine: "execute_infinite_scroll_query mongo c name after_id (the_limit limit_arg)
           (the_sort_by sort_by_arg) (the_order order_arg) ALLOWED_SORT_FIELDS st1
           = (Inl (HTTPBadRequest msg), st1)"
  shows "get_platforms mongo config token breadcrumb name after_id limit_arg sort_by_arg order_arg
           st = (Inl (HTTPBadRequest msg), st1)"
  using get_platforms_engine_raises [OF handle engine, of token breadcrumb] by simp

text \<open>
  Claim C3, as the code has it: once the store has handed out the collection handle, a
  limit below 1 or above 100 is refused with \<open>HTTPBadRequest\<close> and the message of the
  bound, whatever the token and the other parameters are, and the state of the store is
  the one in which it handed out the handle: no query has run. A call without a limit is
  the call with limit 10.
\<close>

theorem limit_out_of_range_rejected:
  assumes "get_collection mongo (PLATFORM_COLLECTION_NAME config) st = (Inr c, st1)"
  shows "(lim < 1 \<longrightarrow>
            get_platforms mongo config token breadcrumb name after_id (Some lim) sort_by_arg
              order_arg st = (Inl (HTTPBadRequest ''limit must be >= 1''), st1)) \<and>
         (100 < lim \<longrightarrow>
            get_platforms mongo config token breadcrumb name after_id (Some lim) sort_by_arg
              order_arg st = (Inl (HTTPBadRequest ''limit must be <= 100''), st1)) \<and>
         get_platforms mongo config token breadcrumb name after_id None sort_by_arg order_arg st =
           get_platforms mongo config token breadcrumb name after_id (Some 10) sort_by_arg
             order_arg st"
proof (intro conjI impI)
  assume "lim < 1"
  then have "execute_infinite_scroll_query mongo c name after_id (the_limit (Some lim))
           (the_sort_by sort_by_arg) (the_order order_arg) ALLOWED_SORT_FIELDS st1
           = (Inl (HTTPBadRequest ''limit must be >= 1''), st1)"
    by (simp add: the_limit_def engine_limit_small)
  with assms show "get_platforms mongo config token breadcrumb name after_id (Some lim)
      sort_by_arg order_arg st = (Inl (HTTPBadRequest ''limit must be >= 1''), st1)"
    by (rule get_platforms_invalid)
next
  assume "100 < lim"
  then have "execute_infinite_scroll_query mongo c name after_id (the_limit (Some lim))
           (the_sort_by sort_by_arg) (the_order order_arg) ALLOWED_SORT_FIELDS st1
           = (Inl (HTTPBadRequest ''limit must be <= 100''), st1)"
    by (simp add: the_limit_def engine_limit_large)
  with assms show "get_platforms mongo config token breadcrumb name after_id (Some lim)
      sort_by_arg order_arg st = (Inl (HTTPBadRequest ''limit must be <= 100''), st1)"
    by (rule get_platforms_invalid)
next
  show "get_platforms mongo config token breadcrumb name after_id None sort_by_arg order_arg st =
          get_platforms mongo config token breadcrumb name after_id (Some 10) sort_by_arg
            order_arg st"
    by (simp add: get_platforms_default_limit)
qed

text \<open>
  \<^verbatim>\<open>test_get_users_invalid_limit_too_small\<close> and \<^verbatim>\<open>test_get_users_invalid_limit_too_large\<close>,
  run against the mock.
\<close>

theorem limit_out_of_range_rejected_witness:
  "get_collection (test_mongo mock_rv) (PLATFORM_COLLECTION_NAME mock_config) []
     = (Inr (), [Get_collection ''Platform'']) \<and>
   (0 :: int) < 1 \<and>
   get_platforms (test_mongo mock_rv) mock_config mock_token mock_breadcrumb None None (Some 0)
     None None [] = (Inl (HTTPBadRequest ''limit must be >= 1''), [Get_collection ''Platform'']) \<and>
   (100 :: int) < 101 \<and>
   get_platforms (test_mongo mock_rv) mock_config mock_token mock_breadcrumb None None (Some 101)
     None None [] = (Inl (HTTPBadRequest ''limit must be <= 100''), [Get_collection ''Platform''])"
proof -
  have h: "get_collection (test_mongo mock_rv) (PLATFORM_COLLECTION_NAME mock_config) []
             = (Inr (), [Get_collection ''Platform''])"
    by (simp add: test_mongo_simps mock_rv_def mock_config_def)
  from limit_out_of_range_rejected [OF h, of 0 mock_token mock_breadcrumb None None None None]
  have small: "get_platforms (test_mongo mock_rv) mock_config mock_token mock_breadcrumb None None
      (Some 0) None None [] = (Inl (HTTPBadRequest ''limit must be >= 1''),
         [Get_collection ''Platform''])"
    by simp
  from limit_out_of_range_rejected [OF h, of 101 mock_token mock_breadcrumb None None None None]
  have large: "get_platforms (test_mongo mock_rv) mock_config mock_token mock_breadcrumb None None
      (Some 101) None None [] = (Inl (HTTPBadRequest ''limit must be <= 100''),
         [Get_collection ''Platform''])"
    by simp
  from h small large show ?thesis by simp
qed

text \<open>
  Claim C3 as stated fails at the input of \<^verbatim>\<open>test_get_users_invalid_limit_too_small\<close>: the
  mock has recorded a call of the store, \<^verbatim>\<open>get_collection\<close>, made before the limit was
  refused; and when that call raises, the limit 0 ends in \<open>HTTPInternalServerError\<close>.
\<close>

theorem validation_follows_collection_handle:
  "get_platforms (test_mongo mock_rv) mock_config mock_token mock_breadcrumb None None (Some 0)
     None None [] = (Inl (HTTPBadRequest ''limit must be >= 1''), [Get_collection ''Platform'']) \<and>
   get_platforms (test_mongo (mock_rv\<lparr>get_collection_rv := Inl (Exception ''Database error'')\<rparr>))
     mock_config mock_token mock_breadcrumb None None (Some 0) None None []
     = (Inl (HTTPInternalServerError ''Failed to retrieve platforms''),
        [Get_collection ''Platform''])"
proof -
  let ?rv = "mock_rv\<lparr>get_collection_rv := Inl (Exception ''Database error'')\<rparr>"
  have h: "get_collection (test_mongo mock_rv) (PLATFORM_COLLECTION_NAME mock_config) []
             = (Inr (), [Get_collection ''Platform''])"
    by (simp add: test_mongo_simps mock_rv_def mock_config_def)
  have "execute_infinite_scroll_query (test_mongo mock_rv) () None None (the_limit (Some 0))
          (the_sort_by None) (the_order None) ALLOWED_SORT_FIELDS [Get_collection ''Platform'']
        = (Inl (HTTPBadRequest ''limit must be >= 1''), [Get_collection ''Platform''])"
    by (simp add: the_limit_def engine_limit_small)
  with h have "get_platforms (test_mongo mock_rv) mock_config mock_token mock_breadcrumb None None
      (Some 0) None None [] = (Inl (HTTPBadRequest ''limit must be >= 1''),
         [Get_collection ''Platform''])"
    by (rule get_platforms_invalid)
  moreover have "get_collection (test_mongo ?rv) (PLATFORM_COLLECTION_NAME mock_config) []
             = (Inl (Exception ''Database error''), [Get_collection ''Platform''])"
    by (simp add: test_mongo_simps mock_config_def)
  then have "get_platforms (test_mongo ?rv) mock_config mock_token mock_breadcrumb None None
      (Some 0) None None []
      = (Inl (HTTPInternalServerError ''Failed to retrieve platforms''),
         [Get_collection ''Platform''])"
    by (simp add: get_platforms_handle_raises)
  ultimately show ?thesis by (rule conjI)
qed

lemma sublist_join:
  assumes "f \<in> set xs"
  shows "sublist f (join sep xs)"
  using assms
proof (induction sep xs rule: join.induct)
  case (1 sep)
  then show ?case by simp
next
  case (2 sep x)
  then show ?case by simp
next
  case (3 sep x y ys)
  show ?case
  proof (cases "f = x")
    case True
    then show ?thesis by simp
  next
    case False
    with 3 have "sublist f (join sep (y # ys))" by simp
    then obtain ps ss where "join sep (y # ys) = ps @ f @ ss"
      by (auto simp: sublist_def)
    then have "join sep (x # y # ys) = (x @ sep @ ps) @ f @ ss" by simp
    then show ?thesis unfolding sublist_def by blast
  qed
qed

lemma sublist_prepend:
  assumes "sublist f ys"
  shows "sublist f (xs @ ys)"
proof -
  from assms obtain ps ss where "ys = ps @ f @ ss" by (auto simp: sublist_def)
  then have "xs @ ys = (xs @ ps) @ f @ ss" by simp
  then show ?thesis unfolding sublist_def by blast
qed

lemma allowed_sort_fields_joined:
  "join '', '' ALLOWED_SORT_FIELDS =
     ''name, description, status, created.at_time, saved.at_time''"
  by (simp add: ALLOWED_SORT_FIELDS_def)

lemma allowed_sort_fields_text:
  "''sort_by must be one of: '' @ join '', '' ALLOWED_SORT_FIELDS =
     ''sort_by must be one of: name, description, status, created.at_time, saved.at_time''"
  by (simp add: allowed_sort_fields_joined)

text \<open>
  Claim C4, as the code has it. The allowed sort fields of Platform are \<^verbatim>\<open>name\<close>,
  \<^verbatim>\<open>description\<close>, \<^verbatim>\<open>status\<close>, \<^verbatim>\<open>created.at_time\<close> and \<^verbatim>\<open>saved.at_time\<close>. Once the store
  has handed out the collection handle, a call with any other sort field fails with
  \<open>HTTPBadRequest\<close>, and the state of the store is the one in which it handed out the
  handle; with a limit in \<open>[1,100]\<close> the message is the one that lists the allowed fields,
  each of which occurs in it. A call without a sort field is the call with \<^verbatim>\<open>name\<close>, which
  is allowed.
\<close>

theorem unknown_sort_field_rejected:
  assumes "get_collection mongo (PLATFORM_COLLECTION_NAME config) st = (Inr c, st1)"
    and "sort_by \<notin> set ALLOWED_SORT_FIELDS"
  shows "(\<exists>msg. get_platforms mongo config token breadcrumb name after_id limit_arg (Some sort_by)
                  order_arg st = (Inl (HTTPBadRequest msg), st1) \<and>
                (1 \<le> the_limit limit_arg \<and> the_limit limit_arg \<le> 100 \<longrightarrow>
                   msg = ''sort_by must be one of: name, description, status, created.at_time, saved.at_time'')) \<and>
         (\<forall>f \<in> set ALLOWED_SORT_FIELDS.
            sublist f ''sort_by must be one of: name, description, status, created.at_time, saved.at_time'') \<and>
         set ALLOWED_SORT_FIELDS =
           {''name'', ''description'', ''status'', ''created.at_time'', ''saved.at_time''} \<and>
         get_platforms mongo config token breadcrumb name after_id limit_arg None order_arg st =
           get_platforms mongo config token breadcrumb name after_id limit_arg (Some ''name'')
             order_arg st \<and>
         ''name'' \<in> set ALLOWED_SORT_FIELDS"
proof -
  let ?text = "''sort_by must be one of: name, description, status, created.at_time, saved.at_time''"
  have invalid: "\<exists>msg. execute_infinite_scroll_query mongo c name after_id (the_limit limit_arg)
           (the_sort_by (Some sort_by)) (the_order order_arg) ALLOWED_SORT_FIELDS st1
           = (Inl (HTTPBadRequest msg), st1) \<and>
           (1 \<le> the_limit limit_arg \<and> the_limit limit_arg \<le> 100 \<longrightarrow> msg = ?text)"
  proof (cases "1 \<le> the_limit limit_arg \<and> the_limit limit_arg \<le> 100")
    case True
    with assms(2) show ?thesis
      by (simp add: the_sort_by_def engine_sort_by allowed_sort_fields_joined)
  next
    case False
    with engine_invalid [of "the_limit limit_arg" "the_sort_by (Some sort_by)"
        ALLOWED_SORT_FIELDS "the_order order_arg" after_id mongo c name st1]
    show ?thesis by auto
  qed
  then obtain msg where
    engine: "execute_infinite_scroll_query mongo c name after_id (the_limit limit_arg)
           (the_sort_by (Some sort_by)) (the_order order_arg) ALLOWED_SORT_FIELDS st1
           = (Inl (HTTPBadRequest msg), st1)"
    and wording: "1 \<le> the_limit limit_arg \<and> the_limit limit_arg \<le> 100 \<longrightarrow> msg = ?text"
    by blast
  have "get_platforms mongo config token breadcrumb name after_id limit_arg (Some sort_by)
          order_arg st = (Inl (HTTPBadRequest msg), st1)"
    using assms(1) engine by (rule get_platforms_invalid)
  with wording have first: "\<exists>msg. get_platforms mongo config token breadcrumb name after_id limit_arg
      (Some sort_by) order_arg st = (Inl (HTTPBadRequest msg), st1) \<and>
      (1 \<le> the_limit limit_arg \<and> the_limit limit_arg \<le> 100 \<longrightarrow> msg = ?text)"
    by blast
  have names: "\<forall>f \<in> set ALLOWED_SORT_FIELDS. sublist f ?text"
  proof
    fix f assume "f \<in> set ALLOWED_SORT_FIELDS"
    then have "sublist f (join '', '' ALLOWED_SORT_FIELDS)" by (rule sublist_join)
    then have "sublist f (''sort_by must be one of: '' @ join '', '' ALLOWED_SORT_FIELDS)"
      by (rule sublist_prepend)
    then show "sublist f ?text" by (simp only: allowed_sort_fields_text)
  qed
  have fields: "set ALLOWED_SORT_FIELDS =
      {''name'', ''description'', ''status'', ''created.at_time'', ''saved.at_time''}"
    by (simp add: ALLOWED_SORT_FIELDS_def)
  have "''name'' \<in> set ALLOWED_SORT_FIELDS" by (simp add: ALLOWED_SORT_FIELDS_def)
  with first names fields show ?thesis
    by (simp add: get_platforms_default_sort_by)
qed

text \<open>\<^verbatim>\<open>test_get_users_invalid_sort_by\<close>, run against the mock.\<close>

theorem unknown_sort_field_rejected_witness:
  "get_collection (test_mongo mock_rv) (PLATFORM_COLLECTION_NAME mock_config) []
     = (Inr (), [Get_collection ''Platform'']) \<and>
   ''invalid_field'' \<notin> set ALLOWED_SORT_FIELDS \<and>
   get_platforms (test_mongo mock_rv) mock_config mock_token mock_breadcrumb None None None
     (Some ''invalid_field'') None []
     = (Inl (HTTPBadRequest
          ''sort_by must be one of: name, description, status, created.at_time, saved.at_time''),
        [Get_collection ''Platform''])"
proof -
  have h1: "get_collection (test_mongo mock_rv) (PLATFORM_COLLECTION_NAME mock_config) []
             = (Inr (), [Get_collection ''Platform''])"
    by (simp add: test_mongo_simps mock_rv_def mock_config_def)
  have h2: "''invalid_field'' \<notin> set ALLOWED_SORT_FIELDS"
    by (simp add: ALLOWED_SORT_FIELDS_def)
  from unknown_sort_field_rejected [OF h1 h2, of mock_token mock_breadcrumb None None None None]
  obtain msg where
    result: "get_platforms (test_mongo mock_rv) mock_config mock_token mock_breadcrumb None None
      None (Some ''invalid_field'') None [] = (Inl (HTTPBadRequest msg), [Get_collection ''Platform''])"
    and wording: "1 \<le> the_limit None \<and> the_limit None \<le> 100 \<longrightarrow>
      msg = ''sort_by must be one of: name, description, status, created.at_time, saved.at_time''"
    by blast
  from wording
  have "msg = ''sort_by must be one of: name, description, status, created.at_time, saved.at_time''"
    by (simp add: the_limit_def)
  with result h1 h2 show ?thesis by simp
qed

text \<open>
  Claim C4 as stated fails at the sort field of \<^verbatim>\<open>test_get_users_invalid_sort_by\<close>: when
  the store raises as the service asks it for the collection handle, the call ends in
  \<open>HTTPInternalServerError\<close>; and with a limit of 0 the call fails with the message of the
  limit, which names no sort field.
\<close>

theorem unknown_sort_field_not_reported:
  "''invalid_field'' \<notin> set ALLOWED_SORT_FIELDS \<and>
   get_platforms (test_mongo (mock_rv\<lparr>get_collection_rv := Inl (Exception ''Database error'')\<rparr>))
     mock_config mock_token mock_breadcrumb None None None (Some ''invalid_field'') None []
     = (Inl (HTTPInternalServerError ''Failed to retrieve platforms''),
        [Get_collection ''Platform'']) \<and>
   get_platforms (test_mongo mock_rv) mock_config mock_token mock_breadcrumb None None (Some 0)
     (Some ''invalid_field'') None []
     = (Inl (HTTPBadRequest ''limit must be >= 1''), [Get_collection ''Platform''])"
proof -
  let ?rv = "mock_rv\<lparr>get_collection_rv := Inl (Exception ''Database error'')\<rparr>"
  have unknown: "''invalid_field'' \<notin> set ALLOWED_SORT_FIELDS"
    by (simp add: ALLOWED_SORT_FIELDS_def)
  have "get_collection (test_mongo ?rv) (PLATFORM_COLLECTION_NAME mock_config) []
          = (Inl (Exception ''Database error''), [Get_collection ''Platform''])"
    by (simp add: test_mongo_simps mock_config_def)
  then have fault: "get_platforms (test_mongo ?rv) mock_config mock_token mock_breadcrumb None None
      None (Some ''invalid_field'') None []
      = (Inl (HTTPInternalServerError ''Failed to retrieve platforms''),
         [Get_collection ''Platform''])"
    by (simp add: get_platforms_handle_raises)
  have h: "get_collection (test_mongo mock_rv) (PLATFORM_COLLECTION_NAME mock_config) []
             = (Inr (), [Get_collection ''Platform''])"
    by (simp add: test_mongo_simps mock_rv_def mock_config_def)
  have "execute_infinite_scroll_query (test_mongo mock_rv) () None None (the_limit (Some 0))
          (the_sort_by (Some ''invalid_field'')) (the_order None) ALLOWED_SORT_FIELDS
          [Get_collection ''Platform'']
        = (Inl (HTTPBadRequest ''limit must be >= 1''), [Get_collection ''Platform''])"
    by (simp add: the_limit_def engine_limit_small)
  with h have "get_platforms (test_mongo mock_rv) mock_config mock_token mock_breadcrumb None None
      (Some 0) (Some ''invalid_field'') None []
      = (Inl (HTTPBadRequest ''limit must be >= 1''), [Get_collection ''Platform''])"
    by (rule get_platforms_invalid)
  with unknown fault show ?thesis by simp
qed


lemma defaults_ok: "limit_ok None" "sort_by_ok None" "order_ok None"
  by (simp_all add: limit_ok_def sort_by_ok_def order_ok_def the_limit_def the_sort_by_def
      the_order_def ALLOWED_SORT_FIELDS_def)




lemma get_platforms_page:
  assumes valid: "1 \<le> lim" "lim \<le> 100" "sort_by \<in> set ALLOWED_SORT_FIELDS"
      "order = ''asc'' \<or> order = ''desc''"
    and handle: "get_collection mongo (PLATFORM_COLLECTION_NAME config) st = (Inr c, st1)"
    and cursor: "after_id = None \<or> (\<exists>s i. after_id = Some s \<and> parse_id mongo s = Some i)"
    and rows: "run_query mongo c
                 \<lparr>q_name = name, q_after_id = cursor_of mongo after_id, q_sort_by = sort_by,
                  q_order = order, q_limit = nat lim + 1\<rparr> st1 = (Inr rows, st2)"
  shows "get_platforms mongo config (Some t) breadcrumb name after_id (Some lim) (Some sort_by)
           (Some order) st = (Inr (page_of (row_id mongo) (str_id mongo) lim rows), st2)"
proof -
  have "execute_infinite_scroll_query mongo c name after_id lim sort_by order
          ALLOWED_SORT_FIELDS st1 = (Inr (page_of (row_id mongo) (str_id mongo) lim rows), st2)"
    unfolding engine_query [OF valid cursor] using rows by simp
  with handle show ?thesis
    by (simp add: get_platforms_engine_returns the_limit_def the_sort_by_def the_order_def)
qed

lemma page_of_record:
  "page_of rid str lim rows =
     \<lparr>items = take (nat lim) rows, limit = lim, has_more = (nat lim < length rows),
      next_cursor = (if nat lim < length rows then Some (str (rid (rows ! (nat lim - 1))))
                     else None)\<rparr>"
  by (simp add: page_of_def)

lemma list_query_empty:
  fixes rid :: "'d \<Rightarrow> 'i::linorder" and key :: "string \<Rightarrow> 'd \<Rightarrow> 'k::linorder"
  assumes "coll = [] \<or> (\<exists>i. q_after_id q = Some i \<and> (\<forall>d \<in> set coll. rid d \<le> i))"
  shows "list_query rid key matches coll q = []"
proof -
  have "filter (\<lambda>d. selected matches (q_name q) d \<and> after rid (q_after_id q) d) coll = []"
    using assms by (auto simp: filter_empty_conv after_def)
  then show ?thesis by (simp add: list_query_def sort_rows_def)
qed

text \<open>
  Claim C2. With a limit in \<^verbatim>\<open>[1,100]\<close> and the other parameters valid, the list operation
  asks the collection for \<open>limit + 1\<close> rows, and from the rows that come back it returns
  the first \<open>limit\<close> as the items, hence at most \<open>limit\<close> of them; \<^verbatim>\<open>has_more\<close> is true
  exactly when more than \<open>limit\<close> rows came back, and then \<^verbatim>\<open>next_cursor\<close> is the identifier
  of the \<open>limit\<close>-th row, otherwise it is \<^verbatim>\<open>None\<close>. Over a store that serves a fixed
  collection, the empty collection and a cursor at or past every identifier give the
  empty page with \<^verbatim>\<open>has_more\<close> false and no cursor.
\<close>

theorem list_returns_page:
  fixes rid :: "'d \<Rightarrow> 'i::linorder" and key :: "string \<Rightarrow> 'd \<Rightarrow> 'k::linorder"
    and mongo :: "('v, 'd, 'i, 'c, 'st) mongo_io" and base :: "('v, 'd, 'i, 'c, 'st) mongo_io"
  assumes "1 \<le> lim" "lim \<le> 100" "sort_by \<in> set ALLOWED_SORT_FIELDS"
    "order = ''asc'' \<or> order = ''desc''"
  shows "(get_collection mongo (PLATFORM_COLLECTION_NAME config) st = (Inr c, st1) \<and>
          (after_id = None \<or> (\<exists>s i. after_id = Some s \<and> parse_id mongo s = Some i)) \<and>
          run_query mongo c
            \<lparr>q_name = name, q_after_id = cursor_of mongo after_id, q_sort_by = sort_by,
             q_order = order, q_limit = nat lim + 1\<rparr> st1 = (Inr rows, st2) \<longrightarrow>
            get_platforms mongo config (Some t) breadcrumb name after_id (Some lim) (Some sort_by)
              (Some order) st
              = (Inr \<lparr>items = take (nat lim) rows, limit = lim,
                      has_more = (nat lim < length rows),
                      next_cursor =
                        (if nat lim < length rows
                         then Some (str_id mongo (row_id mongo (rows ! (nat lim - 1))))
                         else None)\<rparr>,
                 st2) \<and>
            length (take (nat lim) rows) \<le> nat lim) \<and>
         (coll = [] \<and> (after_id = None \<or> (\<exists>s i. after_id = Some s \<and> parse_id base s = Some i)) \<longrightarrow>
            get_platforms (serving base handle rid key matches coll) config (Some t) breadcrumb
              name after_id (Some lim) (Some sort_by) (Some order) st
              = (Inr \<lparr>items = [], limit = lim, has_more = False, next_cursor = None\<rparr>, st)) \<and>
         ((\<exists>s i. after_id = Some s \<and> parse_id base s = Some i \<and> (\<forall>d \<in> set coll. rid d \<le> i)) \<longrightarrow>
            get_platforms (serving base handle rid key matches coll) config (Some t) breadcrumb
              name after_id (Some lim) (Some sort_by) (Some order) st
              = (Inr \<lparr>items = [], limit = lim, has_more = False, next_cursor = None\<rparr>, st))"
proof (intro conjI impI)
  assume a: "get_collection mongo (PLATFORM_COLLECTION_NAME config) st = (Inr c, st1) \<and>
          (after_id = None \<or> (\<exists>s i. after_id = Some s \<and> parse_id mongo s = Some i)) \<and>
          run_query mongo c
            \<lparr>q_name = name, q_after_id = cursor_of mongo after_id, q_sort_by = sort_by,
             q_order = order, q_limit = nat lim + 1\<rparr> st1 = (Inr rows, st2)"
  then have handle: "get_collection mongo (PLATFORM_COLLECTION_NAME config) st = (Inr c, st1)"
    and cursor: "after_id = None \<or> (\<exists>s i. after_id = Some s \<and> parse_id mongo s = Some i)"
    and rows: "run_query mongo c
            \<lparr>q_name = name, q_after_id = cursor_of mongo after_id, q_sort_by = sort_by,
             q_order = order, q_limit = nat lim + 1\<rparr> st1 = (Inr rows, st2)"
    by simp_all
  show "get_platforms mongo config (Some t) breadcrumb name after_id (Some lim) (Some sort_by)
              (Some order) st
              = (Inr \<lparr>items = take (nat lim) rows, limit = lim,
                      has_more = (nat lim < length rows),
                      next_cursor =
                        (if nat lim < length rows
                         then Some (str_id mongo (row_id mongo (rows ! (nat lim - 1))))
                         else None)\<rparr>,
                 st2)"
    using get_platforms_page [OF assms handle cursor rows, of t breadcrumb]
    by (simp only: page_of_record)
  show "length (take (nat lim) rows) \<le> nat lim" by simp
next
  let ?M = "serving base handle rid key matches coll"
  assume a: "coll = [] \<and>
    (after_id = None \<or> (\<exists>s i. after_id = Some s \<and> parse_id base s = Some i))"
  then have cursor: "after_id = None \<or> (\<exists>s i. after_id = Some s \<and> parse_id ?M s = Some i)"
    by (simp add: serving_simps)
  have "run_query ?M handle
          \<lparr>q_name = name, q_after_id = cursor_of ?M after_id, q_sort_by = sort_by,
           q_order = order, q_limit = nat lim + 1\<rparr> st = (Inr [], st)"
    using a by (simp add: serving_simps list_query_empty)
  from get_platforms_page [OF assms serving_simps(1) cursor this, of config t breadcrumb]
  show "get_platforms ?M config (Some t) breadcrumb name after_id (Some lim) (Some sort_by)
          (Some order) st
        = (Inr \<lparr>items = [], limit = lim, has_more = False, next_cursor = None\<rparr>, st)"
    by (simp add: page_of_def)
next
  let ?M = "serving base handle rid key matches coll"
  assume "\<exists>s i. after_id = Some s \<and> parse_id base s = Some i \<and> (\<forall>d \<in> set coll. rid d \<le> i)"
  then obtain s i where a: "after_id = Some s" "parse_id base s = Some i"
    "\<forall>d \<in> set coll. rid d \<le> i" by blast
  then have cursor: "after_id = None \<or> (\<exists>s i. after_id = Some s \<and> parse_id ?M s = Some i)"
    by (simp add: serving_simps)
  have "cursor_of ?M after_id = Some i" using a by (simp add: cursor_of_def serving_simps)
  then have "run_query ?M handle
          \<lparr>q_name = name, q_after_id = cursor_of ?M after_id, q_sort_by = sort_by,
           q_order = order, q_limit = nat lim + 1\<rparr> st = (Inr [], st)"
    using a by (simp add: serving_simps list_query_empty)
  from get_platforms_page [OF assms serving_simps(1) cursor this, of config t breadcrumb]
  show "get_platforms ?M config (Some t) breadcrumb name after_id (Some lim) (Some sort_by)
          (Some order) st
        = (Inr \<lparr>items = [], limit = lim, has_more = False, next_cursor = None\<rparr>, st)"
    by (simp add: page_of_def)
qed

lemma name_allowed: "''name'' \<in> set ALLOWED_SORT_FIELDS"
  by (simp add: ALLOWED_SORT_FIELDS_def)

lemma object_id_11: "object_id ''507f1f77bcf86cd799439011'' = Some ''507f1f77bcf86cd799439011''"
  by (simp add: object_id_def is_hex_digit_def lower_hex_def)

lemma object_id_12: "object_id ''507f1f77bcf86cd799439012'' = Some ''507f1f77bcf86cd799439012''"
  by (simp add: object_id_def is_hex_digit_def lower_hex_def)

text \<open>
  Against the mock of \<^verbatim>\<open>test_get_users_first_batch\<close>, whose query returns two rows, a
  limit of 1 gives the first row, \<^verbatim>\<open>has_more\<close> and the first row's identifier as cursor.
  The empty collection gives the empty page, and so does the cursor at the last
  identifier of a collection of two.
\<close>

theorem list_returns_page_witness:
  "get_platforms (test_mongo mock_rv) mock_config mock_token mock_breadcrumb None None (Some 1)
     (Some ''name'') (Some ''asc'') []
     = (Inr \<lparr>items = [(''507f1f77bcf86cd799439011'', [(''name'', ''user1'')])], limit = 1,
             has_more = True, next_cursor = Some ''507f1f77bcf86cd799439011''\<rparr>,
        [Get_collection ''Platform'',
         Run_query () \<lparr>q_name = None, q_after_id = None, q_sort_by = ''name'', q_order = ''asc'',
                        q_limit = 2\<rparr>]) \<and>
   get_platforms (test_collection []) mock_config mock_token mock_breadcrumb None None (Some 10)
     (Some ''name'') (Some ''asc'') []
     = (Inr \<lparr>items = [], limit = 10, has_more = False, next_cursor = None\<rparr>, []) \<and>
   get_platforms
     (test_collection [(''507f1f77bcf86cd799439011'', [(''name'', ''user1'')]),
                       (''507f1f77bcf86cd799439012'', [(''name'', ''user2'')])])
     mock_config mock_token mock_breadcrumb None (Some ''507f1f77bcf86cd799439012'') (Some 10)
     (Some ''name'') (Some ''asc'') []
     = (Inr \<lparr>items = [], limit = 10, has_more = False, next_cursor = None\<rparr>, [])"
proof -
  let ?t = "[''user_id'' \<mapsto> JStr ''test_user'', ''roles'' \<mapsto> JList [JStr ''admin'']]"
  let ?rows = "[(''507f1f77bcf86cd799439011'', [(''name'', ''user1'')]),
                (''507f1f77bcf86cd799439012'', [(''name'', ''user2'')])] :: row list"
  let ?q = "\<lparr>q_name = None, q_after_id = None, q_sort_by = ''name'', q_order = ''asc'',
             q_limit = 2\<rparr> :: string query"
  let ?log = "[Get_collection ''Platform'', Run_query () ?q] :: (json, string, unit) call list"
  have asc: "''asc'' = ''asc'' \<or> ''asc'' = ''desc''" by simp
  have one: "(1 :: int) \<le> 1" "(1 :: int) \<le> 100" by simp_all
  have ten: "(1 :: int) \<le> 10" "(10 :: int) \<le> 100" by simp_all
  have handle: "get_collection (test_mongo mock_rv) (PLATFORM_COLLECTION_NAME mock_config) []
                  = (Inr (), [Get_collection ''Platform''])"
    by (simp add: test_mongo_simps mock_rv_def mock_config_def)
  have query: "run_query (test_mongo mock_rv) ()
      \<lparr>q_name = None, q_after_id = cursor_of (test_mongo mock_rv) None, q_sort_by = ''name'',
       q_order = ''asc'', q_limit = nat 1 + 1\<rparr> [Get_collection ''Platform''] = (Inr ?rows, ?log)"
    by (simp add: test_mongo_simps mock_rv_def cursor_of_def)
  from list_returns_page [OF one name_allowed asc, where mongo = "test_mongo mock_rv"
      and config = mock_config and st = "[]" and ?st1.0 = "[Get_collection ''Platform'']"
      and c = "()" and after_id = None and name = None and rows = ?rows and ?st2.0 = ?log
      and t = ?t and breadcrumb = mock_breadcrumb and base = "test_mongo mock_rv"
      and handle = "()" and rid = fst and key = field_of and matches = name_is
      and coll = "[]"] handle query
  have first: "get_platforms (test_mongo mock_rv) mock_config mock_token mock_breadcrumb None None
      (Some 1) (Some ''name'') (Some ''asc'') []
      = (Inr \<lparr>items = [(''507f1f77bcf86cd799439011'', [(''name'', ''user1'')])], limit = 1,
              has_more = True, next_cursor = Some ''507f1f77bcf86cd799439011''\<rparr>, ?log)"
    by (simp add: mock_token_def test_mongo_simps)
  from list_returns_page [OF ten name_allowed asc, where base = "test_mongo mock_rv"
      and handle = "()" and rid = fst and key = field_of and matches = name_is
      and coll = "[]" and after_id = None and config = mock_config and st = "[]"
      and name = None and t = ?t and breadcrumb = mock_breadcrumb
      and mongo = "test_mongo mock_rv" and c = "()" and ?st1.0 = "[]" and rows = "[]"
      and ?st2.0 = "[]"]
  have empty: "get_platforms (test_collection []) mock_config mock_token mock_breadcrumb None None
      (Some 10) (Some ''name'') (Some ''asc'') []
      = (Inr \<lparr>items = [], limit = 10, has_more = False, next_cursor = None\<rparr>, [])"
    by (simp add: mock_token_def test_collection_def)
  have past: "\<exists>s i. Some ''507f1f77bcf86cd799439012'' = Some s \<and>
      parse_id (test_mongo mock_rv) s = Some i \<and> (\<forall>d \<in> set ?rows. fst d \<le> i)"
    by (simp add: test_mongo_simps object_id_12)
  from list_returns_page [OF ten name_allowed asc, where base = "test_mongo mock_rv"
      and handle = "()" and rid = fst and key = field_of and matches = name_is
      and coll = ?rows and after_id = "Some ''507f1f77bcf86cd799439012''" and config = mock_config
      and st = "[]" and name = None and t = ?t and breadcrumb = mock_breadcrumb
      and mongo = "test_mongo mock_rv" and c = "()" and ?st1.0 = "[]" and rows = "[]"
      and ?st2.0 = "[]"] past
  have last: "get_platforms (test_collection ?rows) mock_config mock_token mock_breadcrumb None
      (Some ''507f1f77bcf86cd799439012'') (Some 10) (Some ''name'') (Some ''asc'') []
      = (Inr \<lparr>items = [], limit = 10, has_more = False, next_cursor = None\<rparr>, [])"
    by (simp add: mock_token_def test_collection_def)
  from first empty last show ?thesis by simp
qed

text \<open>
  Whatever the sort order, the scroll over a fixed collection ends: each cursor is the
  identifier of a document strictly after the cursor before it.
\<close>

lemma serving_get_platforms_at:
  fixes rid :: "'d \<Rightarrow> 'i::linorder" and key :: "string \<Rightarrow> 'd \<Rightarrow> 'k::linorder"
  assumes valid: "1 \<le> lim" "lim \<le> 100" "sort_by \<in> set ALLOWED_SORT_FIELDS"
      "order = ''asc'' \<or> order = ''desc''"
    and cursor: "after_id = None \<and> c = None \<or>
                 (\<exists>s i. after_id = Some s \<and> parse_id base s = Some i \<and> c = Some i)"
  shows "get_platforms (serving base handle rid key matches coll) config (Some t) breadcrumb name
           after_id (Some lim) (Some sort_by) (Some order) st =
         (Inr (page_of rid (str_id base) lim
                 (list_query rid key matches coll
                    \<lparr>q_name = name, q_after_id = c, q_sort_by = sort_by, q_order = order,
                     q_limit = nat lim + 1\<rparr>)), st)"
proof -
  let ?M = "serving base handle rid key matches coll"
  from cursor have parsed: "after_id = None \<or> (\<exists>s i. after_id = Some s \<and> parse_id ?M s = Some i)"
    by (auto simp: serving_simps)
  from cursor have c: "cursor_of ?M after_id = c"
    by (auto simp: cursor_of_def serving_simps)
  have "run_query ?M handle
          \<lparr>q_name = name, q_after_id = cursor_of ?M after_id, q_sort_by = sort_by,
           q_order = order, q_limit = nat lim + 1\<rparr> st
        = (Inr (list_query rid key matches coll
                  \<lparr>q_name = name, q_after_id = c, q_sort_by = sort_by, q_order = order,
                   q_limit = nat lim + 1\<rparr>), st)"
    by (simp add: serving_simps c)
  from get_platforms_page [OF valid serving_simps(1) parsed this, of config t breadcrumb]
  show ?thesis by (simp add: serving_simps)
qed

lemma scroll_ends:
  fixes rid :: "'d \<Rightarrow> 'i::linorder" and key :: "string \<Rightarrow> 'd \<Rightarrow> 'k::linorder"
  assumes valid: "1 \<le> lim" "lim \<le> 100" "sort_by \<in> set ALLOWED_SORT_FIELDS"
      "order = ''asc'' \<or> order = ''desc''"
    and roundtrip: "\<forall>d \<in> set coll. parse_id base (str_id base (rid d)) = Some (rid d)"
    and cursor: "after_id = None \<and> c = None \<or>
                 (\<exists>s i. after_id = Some s \<and> parse_id base s = Some i \<and> c = Some i)"
    and fuel: "length (filter (\<lambda>d. selected matches name d \<and> after rid c d) coll) < fuel"
  shows "\<exists>xs. scroll fuel
           (\<lambda>a. get_platforms (serving base handle rid key matches coll) config (Some t) breadcrumb
                  name a (Some lim) (Some sort_by) (Some order))
           after_id st = Some (Inr xs)"
  using cursor fuel
proof (induction fuel arbitrary: after_id c)
  case 0
  then show ?case by simp
next
  case (Suc fuel)
  let ?n = "nat lim"
  let ?P = "\<lambda>c d. selected matches name d \<and> after rid c d"
  let ?rows = "list_query rid key matches coll
                 \<lparr>q_name = name, q_after_id = c, q_sort_by = sort_by, q_order = order,
                  q_limit = ?n + 1\<rparr>"
  from valid have n: "0 < ?n" by simp
  note page = serving_get_platforms_at [OF valid Suc.prems(1)]
  show ?case
  proof (cases "?n < length ?rows")
    case False
    then show ?thesis by (simp add: page page_of_def)
  next
    case True
    define d where "d = ?rows ! (?n - 1)"
    from True n have "d \<in> set ?rows" unfolding d_def by (intro nth_mem) simp
    then have "d \<in> set (filter (?P c) coll)"
      by (auto simp: list_query_def set_sort_rows dest: in_set_takeD)
    then have d: "d \<in> set coll" "?P c d" by simp_all
    with roundtrip have parsed: "parse_id base (str_id base (rid d)) = Some (rid d)" by simp
    have next_cursor: "Some (str_id base (rid d)) = None \<and> Some (rid d) = None \<or>
        (\<exists>s i. Some (str_id base (rid d)) = Some s \<and> parse_id base s = Some i \<and> Some (rid d) = Some i)"
      using parsed by simp
    have implies: "\<And>x. ?P (Some (rid d)) x \<Longrightarrow> ?P c x"
      using d(2) by (cases c) (auto simp: after_def)
    have "filter (?P (Some (rid d))) coll = filter (?P (Some (rid d))) (filter (?P c) coll)"
      using implies by (auto intro: filter_cong)
    moreover have "length (filter (?P (Some (rid d))) (filter (?P c) coll))
        < length (filter (?P c) coll)"
    proof (rule length_filter_less)
      show "d \<in> set (filter (?P c) coll)" using d by simp
      show "\<not> ?P (Some (rid d)) d" by (simp add: after_def)
    qed
    ultimately have "length (filter (?P (Some (rid d))) coll) < fuel"
      using Suc.prems(2) by simp
    from Suc.IH [OF next_cursor this] obtain xs where
      "scroll fuel
         (\<lambda>a. get_platforms (serving base handle rid key matches coll) config (Some t) breadcrumb
                name a (Some lim) (Some sort_by) (Some order))
         (Some (str_id base (rid d))) st = Some (Inr xs)"
      by blast
    with True show ?thesis by (simp add: page page_of_def d_def)
  qed
qed

lemma scroll_always_ends:
  fixes rid :: "'d \<Rightarrow> 'i::linorder" and key :: "string \<Rightarrow> 'd \<Rightarrow> 'k::linorder"
  assumes "1 \<le> lim" "lim \<le> 100" "sort_by \<in> set ALLOWED_SORT_FIELDS"
      "order = ''asc'' \<or> order = ''desc''"
    and "\<forall>d \<in> set coll. parse_id base (str_id base (rid d)) = Some (rid d)"
  shows "\<exists>xs. scroll (Suc (length coll))
           (\<lambda>a. get_platforms (serving base handle rid key matches coll) config (Some t) breadcrumb
                  name a (Some lim) (Some sort_by) (Some order))
           None st = Some (Inr xs)"
proof -
  have "length (filter (\<lambda>d. selected matches name d \<and> after rid None d) coll) \<le> length coll"
    by (rule length_filter_le)
  then have bound: "length (filter (\<lambda>d. selected matches name d \<and> after rid None d) coll)
      < Suc (length coll)" by (rule le_imp_less_Suc)
  have start: "(None :: string option) = None \<and> (None :: 'i option) = None \<or>
      (\<exists>s i. (None :: string option) = Some s \<and> parse_id base s = Some i \<and>
             (None :: 'i option) = Some i)"
    by simp
  from assms start bound show ?thesis
    by (rule scroll_ends [where c = None and key = key and sort_by = sort_by])
qed

text \<open>
  The cursor is compared with identifiers, while the pages follow the sort field. Over a
  store that serves a fixed collection, when the requested sort lists the selected
  documents in strictly increasing order of identifier, and the identifiers of the
  collection print and parse back to themselves, the scroll ends (within as many calls as
  there are documents, plus one) and the concatenated items are exactly the sorted
  listing: every selected document once, none twice.
\<close>

theorem scroll_visits_each_once:
  fixes rid :: "'d \<Rightarrow> 'i::linorder" and key :: "string \<Rightarrow> 'd \<Rightarrow> 'k::linorder"
  assumes "1 \<le> lim" "lim \<le> 100" "sort_by \<in> set ALLOWED_SORT_FIELDS"
    "order = ''asc'' \<or> order = ''desc''"
    and "sorted_wrt (<)
           (map rid (sort_rows rid (key sort_by) order (filter (selected matches name) coll)))"
    and "\<forall>d \<in> set coll. parse_id base (str_id base (rid d)) = Some (rid d)"
    and "length coll < fuel"
  shows "scroll fuel
           (\<lambda>a. get_platforms (serving base handle rid key matches coll) config (Some t) breadcrumb
                  name a (Some lim) (Some sort_by) (Some order))
           None st
           = Some (Inr (sort_rows rid (key sort_by) order (filter (selected matches name) coll))) \<and>
         mset (sort_rows rid (key sort_by) order (filter (selected matches name) coll))
           = mset (filter (selected matches name) coll) \<and>
         distinct (sort_rows rid (key sort_by) order (filter (selected matches name) coll))"
proof -
  define S where "S = sort_rows rid (key sort_by) order (filter (selected matches name) coll)"
  have strict: "sorted_wrt (<) (map rid S)" using assms(5) by (simp add: S_def)
  have "length S = length (filter (selected matches name) coll)"
    by (simp add: S_def sort_rows_def)
  also have "\<dots> \<le> length coll" by (rule length_filter_le)
  finally have fuel: "length S - 0 < fuel" using assms(7) by simp
  have "scroll fuel
           (\<lambda>a. get_platforms (serving base handle rid key matches coll) config (Some t) breadcrumb
                  name a (Some lim) (Some sort_by) (Some order))
           (if (0 :: nat) = 0 then None else Some (str_id base (rid (S ! (0 - 1))))) st
        = Some (Inr (drop 0 S))"
    using assms(1-4) S_def strict assms(6) _ fuel
    by (rule scroll_serving [where key = key and sort_by = sort_by]) simp
  then have "scroll fuel
           (\<lambda>a. get_platforms (serving base handle rid key matches coll) config (Some t) breadcrumb
                  name a (Some lim) (Some sort_by) (Some order))
           None st = Some (Inr S)"
    by simp
  moreover have "mset S = mset (filter (selected matches name) coll)"
    by (simp add: S_def mset_sort_rows)
  moreover have "distinct S"
  proof -
    from strict have "distinct (map rid S)" by (simp add: strict_sorted_iff)
    then show ?thesis by (simp add: distinct_map)
  qed
  ultimately show ?thesis by (simp add: S_def)
qed

text \<open>
  The three documents whose names ascend with their identifiers, sorted by name and
  scrolled in pages of two: the first page has alpha and beta, the second gamma.
\<close>

theorem scroll_visits_each_once_witness:
  "sorted_wrt (<)
     (map fst (sort_rows fst (field_of ''name'') ''asc''
        (filter (selected name_is None) names_in_order))) \<and>
   length names_in_order < 4 \<and>
   scroll 4
     (\<lambda>a. get_platforms (test_collection names_in_order) mock_config mock_token mock_breadcrumb
            None a (Some 2) (Some ''name'') (Some ''asc''))
     None [] = Some (Inr names_in_order) \<and>
   distinct names_in_order"
proof -
  let ?t = "[''user_id'' \<mapsto> JStr ''test_user'', ''roles'' \<mapsto> JList [JStr ''admin'']]"
  have valid: "(1 :: int) \<le> 2" "(2 :: int) \<le> 100" "''name'' \<in> set ALLOWED_SORT_FIELDS"
    "''asc'' = ''asc'' \<or> ''asc'' = ''desc''"
    by (simp_all add: name_allowed)
  have sorted_names: "sort_rows fst (field_of ''name'') ''asc''
      (filter (selected name_is None) names_in_order) = names_in_order"
    by code_simp
  have strict: "sorted_wrt (<)
     (map fst (sort_rows fst (field_of ''name'') ''asc''
        (filter (selected name_is None) names_in_order)))"
    by code_simp
  have roundtrip: "\<forall>d \<in> set names_in_order.
      parse_id (test_mongo mock_rv) (str_id (test_mongo mock_rv) (fst d)) = Some (fst d)"
    by code_simp
  have fuel: "length names_in_order < 4" by (simp add: names_in_order_def)
  from scroll_visits_each_once [where key = field_of and sort_by = "''name''" and rid = fst
      and matches = name_is and name = None and coll = names_in_order
      and base = "test_mongo mock_rv" and handle = "()" and config = mock_config and t = ?t
      and breadcrumb = mock_breadcrumb and st = "[]", OF valid strict roundtrip fuel]
  have "scroll 4
     (\<lambda>a. get_platforms (test_collection names_in_order) mock_config mock_token mock_breadcrumb
            None a (Some 2) (Some ''name'') (Some ''asc''))
     None [] = Some (Inr names_in_order) \<and> distinct names_in_order"
    by (simp add: sorted_names test_collection_def mock_token_def)
  with strict fuel show ?thesis by simp
qed

text \<open>
  Claim C1 fails on a collection of three documents whose names do not ascend with their
  identifiers, scrolled with the default sort (by name, ascending): the first page ends
  at alpha, whose identifier is the second, so the cursor leaves out beta, whose
  identifier is the first. With pages of one the scroll ends after alpha and gamma and
  never returns beta; with pages of two it returns alpha twice.
\<close>

theorem scroll_skips_and_repeats:
  "scroll 4
     (\<lambda>a. get_platforms (test_collection names_out_of_order) mock_config mock_token
            mock_breadcrumb None a (Some 1) None None)
     None []
     = Some (Inr [(''507f1f77bcf86cd799439012'', [(''name'', ''alpha'')]),
                  (''507f1f77bcf86cd799439013'', [(''name'', ''gamma'')])]) \<and>
   scroll 4
     (\<lambda>a. get_platforms (test_collection names_out_of_order) mock_config mock_token
            mock_breadcrumb None a (Some 2) None None)
     None []
     = Some (Inr [(''507f1f77bcf86cd799439012'', [(''name'', ''alpha'')]),
                  (''507f1f77bcf86cd799439011'', [(''name'', ''beta'')]),
                  (''507f1f77bcf86cd799439012'', [(''name'', ''alpha'')]),
                  (''507f1f77bcf86cd799439013'', [(''name'', ''gamma'')])])"
  by code_simp

text \<open>
  Claim C9, as the code has it. An exception that the store raises during an operation,
  or that the list operation lets through, ends in \<open>HTTPInternalServerError\<close>, unless it
  is of a class that the handler of the operation raises again as it is (\<open>HTTPForbidden\<close>
  in create; \<open>HTTPBadRequest\<close> in list; \<open>HTTPNotFound\<close> in read; \<open>HTTPForbidden\<close> and
  \<open>HTTPNotFound\<close> in update). In list, read and update the message is fixed by the
  operation and the identifier asked for: it does not depend on the exception.
\<close>

theorem store_fault_is_internal_error:
  "(create_document mongo (PLATFORM_COLLECTION_NAME config) (stamp data breadcrumb) st
      = (Inl e, st') \<and> (\<forall>m. e \<noteq> HTTPForbidden m) \<longrightarrow>
      (\<exists>msg. create_platform mongo config data token breadcrumb st
               = (Inl (HTTPInternalServerError msg), st'))) \<and>
   (get_collection mongo (PLATFORM_COLLECTION_NAME config) st = (Inl e, st') \<and>
    (\<forall>m. e \<noteq> HTTPBadRequest m) \<longrightarrow>
      get_platforms mongo config token breadcrumb name after_id limit_arg sort_by_arg order_arg st
        = (Inl (HTTPInternalServerError ''Failed to retrieve platforms''), st')) \<and>
   (get_collection mongo (PLATFORM_COLLECTION_NAME config) st = (Inr c, st1) \<and>
    execute_infinite_scroll_query mongo c name after_id (the_limit limit_arg)
      (the_sort_by sort_by_arg) (the_order order_arg) ALLOWED_SORT_FIELDS st1 = (Inl e, st') \<and>
    (\<forall>m. e \<noteq> HTTPBadRequest m) \<longrightarrow>
      get_platforms mongo config token breadcrumb name after_id limit_arg sort_by_arg order_arg st
        = (Inl (HTTPInternalServerError ''Failed to retrieve platforms''), st')) \<and>
   (get_document mongo (PLATFORM_COLLECTION_NAME config) platform_id st = (Inl e, st') \<and>
    (\<forall>m. e \<noteq> HTTPNotFound m) \<longrightarrow>
      get_platform mongo config platform_id token breadcrumb st
        = (Inl (HTTPInternalServerError (''Failed to retrieve platform '' @ platform_id)), st')) \<and>
   ((\<forall>f \<in> set restricted_fields. data f = None) \<and>
    update_document mongo (PLATFORM_COLLECTION_NAME config) platform_id
      (set_data_of data breadcrumb) st = (Inl e, st') \<and>
    (\<forall>m. e \<noteq> HTTPForbidden m) \<and> (\<forall>m. e \<noteq> HTTPNotFound m) \<longrightarrow>
      update_platform mongo config platform_id data token breadcrumb st
        = (Inl (HTTPInternalServerError (''Failed to update platform '' @ platform_id)), st'))"
proof (intro conjI impI)
  assume a: "create_document mongo (PLATFORM_COLLECTION_NAME config) (stamp data breadcrumb) st
      = (Inl e, st') \<and> (\<forall>m. e \<noteq> HTTPForbidden m)"
  then have "create_platform mongo config data token breadcrumb st =
      (Inl (HTTPInternalServerError (''Failed to create platform: '' @ str_exn e)), st')"
    by (cases e) (simp_all add: create_platform_store_raises)
  then show "\<exists>msg. create_platform mongo config data token breadcrumb st
               = (Inl (HTTPInternalServerError msg), st')"
    by blast
next
  assume a: "get_collection mongo (PLATFORM_COLLECTION_NAME config) st = (Inl e, st') \<and>
    (\<forall>m. e \<noteq> HTTPBadRequest m)"
  then show "get_platforms mongo config token breadcrumb name after_id limit_arg sort_by_arg
      order_arg st = (Inl (HTTPInternalServerError ''Failed to retrieve platforms''), st')"
    by (cases e) (simp_all add: get_platforms_handle_raises)
next
  assume a: "get_collection mongo (PLATFORM_COLLECTION_NAME config) st = (Inr c, st1) \<and>
    execute_infinite_scroll_query mongo c name after_id (the_limit limit_arg)
      (the_sort_by sort_by_arg) (the_order order_arg) ALLOWED_SORT_FIELDS st1 = (Inl e, st') \<and>
    (\<forall>m. e \<noteq> HTTPBadRequest m)"
  then have handle: "get_collection mongo (PLATFORM_COLLECTION_NAME config) st = (Inr c, st1)"
    and engine: "execute_infinite_scroll_query mongo c name after_id (the_limit limit_arg)
      (the_sort_by sort_by_arg) (the_order order_arg) ALLOWED_SORT_FIELDS st1 = (Inl e, st')"
    and other: "\<forall>m. e \<noteq> HTTPBadRequest m"
    by simp_all
  from get_platforms_engine_raises [OF handle engine, of token breadcrumb] other
  show "get_platforms mongo config token breadcrumb name after_id limit_arg sort_by_arg
      order_arg st = (Inl (HTTPInternalServerError ''Failed to retrieve platforms''), st')"
    by (cases e) simp_all
next
  assume a: "get_document mongo (PLATFORM_COLLECTION_NAME config) platform_id st = (Inl e, st') \<and>
    (\<forall>m. e \<noteq> HTTPNotFound m)"
  then show "get_platform mongo config platform_id token breadcrumb st
        = (Inl (HTTPInternalServerError (''Failed to retrieve platform '' @ platform_id)), st')"
    by (cases e) (simp_all add: get_platform_store_raises)
next
  assume a: "(\<forall>f \<in> set restricted_fields. data f = None) \<and>
    update_document mongo (PLATFORM_COLLECTION_NAME config) platform_id
      (set_data_of data breadcrumb) st = (Inl e, st') \<and>
    (\<forall>m. e \<noteq> HTTPForbidden m) \<and> (\<forall>m. e \<noteq> HTTPNotFound m)"
  then have "\<forall>f \<in> set restricted_fields. data f = None" by (rule conjunct1)
  then have none: "find (\<lambda>f. data f \<noteq> None) restricted_fields = None"
    by (rule no_restricted)
  from a have store: "update_document mongo (PLATFORM_COLLECTION_NAME config) platform_id
      (set_data_of data breadcrumb) st = (Inl e, st')" by simp
  from update_platform_store_raises [OF none store, of token] a
  show "update_platform mongo config platform_id data token breadcrumb st
        = (Inl (HTTPInternalServerError (''Failed to update platform '' @ platform_id)), st')"
    by (cases e) simp_all
qed

text \<open>
  The four tests \<^verbatim>\<open>test_create_user_handles_exception\<close>, \<^verbatim>\<open>test_get_users_handles_exception\<close>,
  \<^verbatim>\<open>test_get_user_handles_exception\<close> and \<^verbatim>\<open>test_update_user_handles_exception\<close>, run
  against the mock: the store raises \<^verbatim>\<open>Exception("Database error")\<close>.
\<close>

theorem store_fault_is_internal_error_witness:
  "(\<exists>msg. create_platform
            (test_mongo (mock_rv\<lparr>create_document_rv := Inl (Exception ''Database error'')\<rparr>))
            mock_config [''name'' \<mapsto> JStr ''test''] mock_token mock_breadcrumb []
          = (Inl (HTTPInternalServerError msg),
             [Create_document ''Platform'' (stamp [''name'' \<mapsto> JStr ''test''] mock_breadcrumb)])) \<and>
   get_platforms (test_mongo (mock_rv\<lparr>run_query_rv := Inl (Exception ''Database error'')\<rparr>))
     mock_config mock_token mock_breadcrumb None None None None None []
     = (Inl (HTTPInternalServerError ''Failed to retrieve platforms''),
        [Get_collection ''Platform'',
         Run_query () \<lparr>q_name = None, q_after_id = None, q_sort_by = ''name'', q_order = ''asc'',
                        q_limit = 11\<rparr>]) \<and>
   get_platform (test_mongo (mock_rv\<lparr>get_document_rv := Inl (Exception ''Database error'')\<rparr>))
     mock_config ''123'' mock_token mock_breadcrumb []
     = (Inl (HTTPInternalServerError ''Failed to retrieve platform 123''),
        [Get_document ''Platform'' ''123'']) \<and>
   update_platform (test_mongo (mock_rv\<lparr>update_document_rv := Inl (Exception ''Database error'')\<rparr>))
     mock_config ''123'' [''name'' \<mapsto> JStr ''updated''] mock_token mock_breadcrumb []
     = (Inl (HTTPInternalServerError ''Failed to update platform 123''),
        [Update_document ''Platform'' ''123''
           (set_data_of [''name'' \<mapsto> JStr ''updated''] mock_breadcrumb)])"
proof -
  let ?e = "Exception ''Database error''"
  let ?create = "test_mongo (mock_rv\<lparr>create_document_rv := Inl ?e\<rparr>)"
  let ?list = "test_mongo (mock_rv\<lparr>run_query_rv := Inl ?e\<rparr>)"
  let ?read = "test_mongo (mock_rv\<lparr>get_document_rv := Inl ?e\<rparr>)"
  let ?update = "test_mongo (mock_rv\<lparr>update_document_rv := Inl ?e\<rparr>)"
  let ?new = "[''name'' \<mapsto> JStr ''test''] :: json dict"
  let ?change = "[''name'' \<mapsto> JStr ''updated''] :: json dict"
  let ?q = "\<lparr>q_name = None, q_after_id = None, q_sort_by = ''name'', q_order = ''asc'',
             q_limit = 11\<rparr> :: string query"
  have other: "\<forall>m. ?e \<noteq> HTTPForbidden m" "\<forall>m. ?e \<noteq> HTTPBadRequest m"
    "\<forall>m. ?e \<noteq> HTTPNotFound m"
    by simp_all
  have created: "create_document ?create (PLATFORM_COLLECTION_NAME mock_config)
      (stamp ?new mock_breadcrumb) []
      = (Inl ?e, [Create_document ''Platform'' (stamp ?new mock_breadcrumb)])"
    by (simp add: test_mongo_simps mock_config_def)
  have "\<exists>msg. create_platform ?create mock_config ?new mock_token mock_breadcrumb []
      = (Inl (HTTPInternalServerError msg),
         [Create_document ''Platform'' (stamp ?new mock_breadcrumb)])"
    using store_fault_is_internal_error [where data = ?new and mongo = ?create
        and token = mock_token, THEN conjunct1, rule_format, OF conjI, OF created other(1)]
    by simp
  moreover
  have handle: "get_collection ?list (PLATFORM_COLLECTION_NAME mock_config) []
      = (Inr (), [Get_collection ''Platform''])"
    by (simp add: test_mongo_simps mock_rv_def mock_config_def)
  have valid: "1 \<le> the_limit None" "the_limit None \<le> 100"
      "the_sort_by None \<in> set ALLOWED_SORT_FIELDS"
      "the_order None = ''asc'' \<or> the_order None = ''desc''"
    using defaults_ok by (simp_all add: limit_ok_def sort_by_ok_def order_ok_def)
  have first_page: "(None :: string option) = None \<or>
      (\<exists>s i. (None :: string option) = Some s \<and> parse_id ?list s = Some i)"
    by simp
  have engine: "execute_infinite_scroll_query ?list () None None (the_limit None)
      (the_sort_by None) (the_order None) ALLOWED_SORT_FIELDS [Get_collection ''Platform'']
      = (Inl ?e, [Get_collection ''Platform'', Run_query () ?q])"
    unfolding engine_query [OF valid first_page]
    by (simp add: test_mongo_simps cursor_of_def the_limit_def the_sort_by_def the_order_def)
  have "get_platforms ?list mock_config mock_token mock_breadcrumb None None None None None []
      = (Inl (HTTPInternalServerError ''Failed to retrieve platforms''),
         [Get_collection ''Platform'', Run_query () ?q])"
    using store_fault_is_internal_error [THEN conjunct2, THEN conjunct2, THEN conjunct1,
        rule_format, OF conjI, OF handle conjI, OF engine other(2), of mock_token mock_breadcrumb]
    by simp
  moreover
  have read: "get_document ?read (PLATFORM_COLLECTION_NAME mock_config) ''123'' []
      = (Inl ?e, [Get_document ''Platform'' ''123''])"
    by (simp add: test_mongo_simps mock_config_def)
  have "get_platform ?read mock_config ''123'' mock_token mock_breadcrumb []
      = (Inl (HTTPInternalServerError ''Failed to retrieve platform 123''),
         [Get_document ''Platform'' ''123''])"
    using store_fault_is_internal_error [THEN conjunct2, THEN conjunct2, THEN conjunct2,
        THEN conjunct1, rule_format, OF conjI, OF read other(3), of mock_token mock_breadcrumb]
    by simp
  moreover
  have unrestricted: "\<forall>f \<in> set restricted_fields. ?change f = None"
    by (simp add: restricted_fields_def)
  have updated: "update_document ?update (PLATFORM_COLLECTION_NAME mock_config) ''123''
      (set_data_of ?change mock_breadcrumb) []
      = (Inl ?e, [Update_document ''Platform'' ''123'' (set_data_of ?change mock_breadcrumb)])"
    by (simp add: test_mongo_simps mock_config_def)
  have "update_platform ?update mock_config ''123'' ?change mock_token mock_breadcrumb []
      = (Inl (HTTPInternalServerError ''Failed to update platform 123''),
         [Update_document ''Platform'' ''123'' (set_data_of ?change mock_breadcrumb)])"
    using store_fault_is_internal_error [where data = ?change and mongo = ?update
        and platform_id = "''123''" and token = mock_token, THEN conjunct2, THEN conjunct2,
        THEN conjunct2, THEN conjunct2, rule_format, OF conjI, OF unrestricted conjI,
        OF updated conjI, OF other(1) other(3)]
    by simp
  ultimately show ?thesis by blast
qed

text \<open>
  Claim C9 as stated fails twice. When the store raises \<open>HTTPNotFound\<close> while a document
  is read, the service raises it again as it is, not as \<open>HTTPInternalServerError\<close>. And at
  the input of \<^verbatim>\<open>test_create_user_handles_exception\<close> the message of the
  \<open>HTTPInternalServerError\<close> carries the text of the store's exception.
\<close>

theorem store_fault_passed_on_or_exposed:
  "get_platform
     (test_mongo (mock_rv\<lparr>get_document_rv := Inl (HTTPNotFound ''no such document'')\<rparr>))
     mock_config ''123'' mock_token mock_breadcrumb []
     = (Inl (HTTPNotFound ''no such document''), [Get_document ''Platform'' ''123'']) \<and>
   fst (create_platform
          (test_mongo (mock_rv\<lparr>create_document_rv := Inl (Exception ''Database error'')\<rparr>))
          mock_config [''name'' \<mapsto> JStr ''test''] mock_token mock_breadcrumb [])
     = Inl (HTTPInternalServerError ''Failed to create platform: Database error'')"
proof -
  let ?read = "test_mongo (mock_rv\<lparr>get_document_rv := Inl (HTTPNotFound ''no such document'')\<rparr>)"
  let ?create = "test_mongo (mock_rv\<lparr>create_document_rv := Inl (Exception ''Database error'')\<rparr>)"
  have "get_document ?read (PLATFORM_COLLECTION_NAME mock_config) ''123'' []
      = (Inl (HTTPNotFound ''no such document''), [Get_document ''Platform'' ''123''])"
    by (simp add: test_mongo_simps mock_config_def)
  then have "get_platform ?read mock_config ''123'' mock_token mock_breadcrumb []
      = (Inl (HTTPNotFound ''no such document''), [Get_document ''Platform'' ''123''])"
    by (simp add: get_platform_store_raises)
  moreover have "create_document ?create (PLATFORM_COLLECTION_NAME mock_config)
          (stamp [''name'' \<mapsto> JStr ''test''] mock_breadcrumb) []
        = (Inl (Exception ''Database error''),
           [Create_document (PLATFORM_COLLECTION_NAME mock_config)
              (stamp [''name'' \<mapsto> JStr ''test''] mock_breadcrumb)])"
    by (simp add: test_mongo_simps)
  then have "fst (create_platform ?create mock_config [''name'' \<mapsto> JStr ''test'']
                    mock_token mock_breadcrumb [])
             = Inl (HTTPInternalServerError ''Failed to create platform: Database error'')"
    by (simp add: create_platform_store_raises)
  ultimately show ?thesis by (rule conjI)
qed

end
